theory Spec2Isabelle
  imports Complex_Main "HOL-Library.Multiset" "HOL-Library.Log_Nat"
begin

section \<open>JavaScript values used by the attendance front end\<close>

text \<open>
  A JavaScript \<^verbatim>\<open>number\<close> is an IEEE 754 binary64 value. The program meets NaN and
  finite values; a finite value is the rational it denotes. The result of a subtraction, a
  division or an addition is the exact result rounded to the nearest binary64 value, ties
  to the even significand: \<open>binary64\<close>. The significand has 53 bits, the least exponent
  is -1022 (below it the spacing stays \<open>2^-1074\<close>). No operation of the program
  overflows: a time value is an integer of magnitude at most 8.64e15 and an array has
  fewer than \<open>2^32\<close> elements, so \<open>binary64\<close> has no case for infinity.
\<close>

datatype jsnum = NaN | Num rat

definition round_to_even :: "rat \<Rightarrow> int" where
  "round_to_even x =
     (let f = \<lfloor>x\<rfloor>; d = x - of_int f
      in if d < 1 / 2 then f else if 1 / 2 < d then f + 1 else if even f then f else f + 1)"

text \<open>The exponent \<open>e\<close> with \<open>2^e \<le> |q| < 2^(e+1)\<close>, for \<open>q\<close> other than 0.\<close>

definition binary_exponent :: "rat \<Rightarrow> int" where
  "binary_exponent q =
     (case quotient_of \<bar>q\<bar> of
        (a, b) \<Rightarrow> (let k = bitlen a - bitlen b in if 2 powi k \<le> \<bar>q\<bar> then k else k - 1))"

definition binary64 :: "rat \<Rightarrow> rat" where
  "binary64 q =
     (if q = 0 then 0
      else (let e = max (binary_exponent q) (- 1022); ulp = 2 powi (e - 52)
            in of_int (round_to_even (q / ulp)) * ulp))"

text \<open>
  The rows of \<^verbatim>\<open>absenteeData\<close> are typed \<^verbatim>\<open>any\<close> in the source: they are the JSON
  the endpoint sends. A field of such a row is \<^verbatim>\<open>null\<close>, a number or a string.
\<close>

datatype jsval = JNull | JNum int | JStr string

text \<open>What \<^verbatim>\<open>!v\<close> negates: \<^verbatim>\<open>null\<close>, \<^verbatim>\<open>0\<close> and \<^verbatim>\<open>""\<close> are falsy.\<close>

fun truthy :: "jsval \<Rightarrow> bool" where
  "truthy JNull = False"
| "truthy (JNum n) = (n \<noteq> 0)"
| "truthy (JStr s) = (s \<noteq> [])"

fun jsadd :: "jsnum \<Rightarrow> jsnum \<Rightarrow> jsnum" where
  "jsadd (Num a) (Num b) = Num (binary64 (a + b))"
| "jsadd _ _ = NaN"

fun jssub :: "jsnum \<Rightarrow> jsnum \<Rightarrow> jsnum" where
  "jssub (Num a) (Num b) = Num (binary64 (a - b))"
| "jssub _ _ = NaN"

text \<open>
  \<^verbatim>\<open>a / b\<close> for a divisor other than 0 (the program divides by \<^verbatim>\<open>1000 * 60 * 60\<close> only,
  a product that is exact).
\<close>

fun jsdiv :: "jsnum \<Rightarrow> rat \<Rightarrow> jsnum" where
  "jsdiv (Num a) b = Num (binary64 (a / b))"
| "jsdiv NaN b = NaN"

text \<open>\<^verbatim>\<open>Math.max(a, b)\<close>: NaN as soon as one argument is NaN; no rounding.\<close>

fun Math_max :: "jsnum \<Rightarrow> jsnum \<Rightarrow> jsnum" where
  "Math_max (Num a) (Num b) = Num (max a b)"
| "Math_max _ _ = NaN"

text \<open>\<^verbatim>\<open>a >= b\<close> and \<^verbatim>\<open>a < b\<close> on numbers: every comparison with NaN is false.\<close>

fun jsge :: "jsnum \<Rightarrow> jsnum \<Rightarrow> bool" where
  "jsge (Num a) (Num b) = (b \<le> a)"
| "jsge _ _ = False"

fun jslt :: "jsnum \<Rightarrow> jsnum \<Rightarrow> bool" where
  "jslt (Num a) (Num b) = (a < b)"
| "jslt _ _ = False"

subsection \<open>\<^verbatim>\<open>String.prototype.split\<close> and \<^verbatim>\<open>Array.prototype.join\<close>\<close>

text \<open>
  \<^verbatim>\<open>s.split(sep)\<close> scans \<^verbatim>\<open>s\<close> from the left; where \<^verbatim>\<open>sep\<close> stands it closes the
  current piece and goes on behind the separator. The result always has at least one
  piece. With the empty separator the pieces are the characters.
\<close>

function split_go :: "string \<Rightarrow> string \<Rightarrow> string list" where
  "split_go sep [] = [[]]"
| "split_go sep (c # cs) =
     (if sep \<noteq> [] \<and> take (length sep) (c # cs) = sep
      then [] # split_go sep (drop (length sep) (c # cs))
      else (case split_go sep cs of
              [] \<Rightarrow> [[c]]
            | p # ps \<Rightarrow> (c # p) # ps))"
  by pat_completeness auto
termination
  by (relation "measure (\<lambda>(sep, s). length s)") auto

definition String_split :: "string \<Rightarrow> string \<Rightarrow> string list" where
  "String_split sep s = (if sep = [] then map (\<lambda>c. [c]) s else split_go sep s)"

fun Array_join :: "string \<Rightarrow> string list \<Rightarrow> string" where
  "Array_join sep [] = []"
| "Array_join sep [x] = x"
| "Array_join sep (x # y # ys) = x @ sep @ Array_join sep (y # ys)"

text \<open>
  The array destructuring \<^verbatim>\<open>const [startTime, endTime] = parts\<close> followed by the template
  literal \<^verbatim>\<open>`2000-01-01 ${x}`\<close>: a position the array does not have is \<^verbatim>\<open>undefined\<close>,
  which the template prints as the word.
\<close>

definition template_elem :: "string list \<Rightarrow> nat \<Rightarrow> string" where
  "template_elem parts i = (if i < length parts then parts ! i else ''undefined'')"

subsection \<open>The runtime's \<^verbatim>\<open>Date\<close>\<close>

text \<open>
  \<^verbatim>\<open>new Date(text)\<close> belongs to the runtime, not to the program: in the functions below it
  is the parameter \<open>parse\<close>, which gives the time value of the date in milliseconds since
  the epoch, or \<open>None\<close> for an Invalid Date (whose \<^verbatim>\<open>getTime()\<close> is NaN). A time value
  is an integer of magnitude at most 8.64e15, below \<open>2^53\<close>, so \<^verbatim>\<open>getTime()\<close> gives it
  without rounding.

  \<open>Date_new tz\<close> is one such runtime, for the examples: it reads \<^verbatim>\<open>"2000-01-01 HH:MM"\<close>,
  two digits each, an hour below 24 and a minute below 60, as that local time at the offset
  \<open>tz\<close> from UTC in minutes (946684800000 is 2000-01-01T00:00:00Z). It is a partial table:
  a real runtime reads further forms of the time of day (one-digit hours, seconds,
  \<^verbatim>\<open>24:00\<close>, an empty time), which this table does not; it is used below at texts of the
  form \<^verbatim>\<open>HH:MM\<close> and at \<^verbatim>\<open>abc\<close> and \<^verbatim>\<open>undefined\<close>, which no runtime reads as a time.
\<close>

definition digit_val :: "char \<Rightarrow> nat option" where
  "digit_val c =
     (let n = (of_char c :: nat) in if 48 \<le> n \<and> n \<le> 57 then Some (n - 48) else None)"

definition parse_two_digits :: "char \<Rightarrow> char \<Rightarrow> nat option" where
  "parse_two_digits a b =
     (case digit_val a of
        None \<Rightarrow> None
      | Some x \<Rightarrow> (case digit_val b of None \<Rightarrow> None | Some y \<Rightarrow> Some (10 * x + y)))"

fun parse_time_of_day :: "string \<Rightarrow> nat option" where
  "parse_time_of_day [a, b, c, d, e] =
     (if c = CHR '':'' then
        (case parse_two_digits a b of
           None \<Rightarrow> None
         | Some h \<Rightarrow>
             (case parse_two_digits d e of
                None \<Rightarrow> None
              | Some m \<Rightarrow> if h < 24 \<and> m < 60 then Some (h * 60 + m) else None))
      else None)"
| "parse_time_of_day _ = None"

definition Date_new :: "int \<Rightarrow> string \<Rightarrow> int option" where
  "Date_new tz text =
     (if take 11 text = ''2000-01-01 '' then
        (case parse_time_of_day (drop 11 text) of
           None \<Rightarrow> None
         | Some minutes \<Rightarrow> Some (946684800000 - tz * 60000 + int minutes * 60000))
      else None)"

definition getTime :: "int option \<Rightarrow> jsnum" where
  "getTime d = (case d of None \<Rightarrow> NaN | Some t \<Rightarrow> Num (of_int t))"

section \<open>Session duration (\<^verbatim>\<open>calculateSessionDuration\<close>)\<close>

text \<open>
  The guard \<^verbatim>\<open>if (!timeSlot) return 2\<close>, then the body of the \<^verbatim>\<open>try\<close>. On a string
  nothing in the body throws: \<^verbatim>\<open>split\<close> is total and \<^verbatim>\<open>new Date\<close> of a text it cannot
  read is an Invalid Date, not an exception. The \<^verbatim>\<open>catch\<close> is reached by a truthy value
  that is no string (it has no \<^verbatim>\<open>split\<close>), and returns 2.
\<close>

definition calculateSessionDuration :: "(string \<Rightarrow> int option) \<Rightarrow> jsval \<Rightarrow> jsnum" where
  "calculateSessionDuration parse timeSlot =
     (if \<not> truthy timeSlot then Num 2
      else (case timeSlot of
              JStr s \<Rightarrow>
                (let parts = String_split '' - '' s;
                     startTime = template_elem parts 0;
                     endTime = template_elem parts 1;
                     start = parse (''2000-01-01 '' @ startTime);
                     end = parse (''2000-01-01 '' @ endTime);
                     diffInMs = jssub (getTime end) (getTime start);
                     diffInHours = jsdiv diffInMs (1000 * 60 * 60)
                 in Math_max diffInHours (Num 1))
            | _ \<Rightarrow> Num 2))"

text \<open>The text of a time of day, for stating what a valid slot is.\<close>

definition digit_char :: "nat \<Rightarrow> char" where
  "digit_char k = char_of (48 + k)"

definition two_digits :: "nat \<Rightarrow> string" where
  "two_digits n = [digit_char (n div 10), digit_char (n mod 10)]"

definition hhmm :: "nat \<Rightarrow> nat \<Rightarrow> string" where
  "hhmm h m = two_digits h @ '':'' @ two_digits m"

section \<open>Aggregation of absence hours (\<^verbatim>\<open>loadAbsenteeHours\<close>)\<close>

text \<open>
  Several of the program's types have fields of the same name, so every field carries the
  prefix of its record: \<open>st_id\<close> is \<^verbatim>\<open>student.id\<close>, \<open>row_timeSlot\<close> is
  \<^verbatim>\<open>record.timeSlot\<close> of a row of \<^verbatim>\<open>absenteeData\<close>, \<open>ses_duration\<close> is
  \<^verbatim>\<open>session.duration\<close>, \<open>sah_totalAbsentHours\<close> is \<^verbatim>\<open>data.totalAbsentHours\<close>.
  \<^verbatim>\<open>Student\<close> comes from \<^verbatim>\<open>../types\<close>; the interface \<^verbatim>\<open>StudentAbsenteeHours\<close> of the
  component copies its five fields as strings.
\<close>

record Student =
  st_id :: string
  st_name :: string
  st_matricule :: string
  st_field :: string
  st_level :: string

record AbsenceRow =
  row_studentId :: jsval
  row_matricule :: jsval
  row_date :: jsval
  row_courseTitle :: jsval
  row_courseCode :: jsval
  row_timeSlot :: jsval

record AbsentSession =
  ses_date :: jsval
  ses_course :: jsval
  ses_courseCode :: jsval
  ses_duration :: jsnum
  ses_timeSlot :: jsval

record StudentAbsenteeHours =
  sah_studentId :: string
  sah_studentName :: string
  sah_matricule :: string
  sah_field :: string
  sah_level :: string
  sah_totalAbsentHours :: jsnum
  sah_absentSessions :: "AbsentSession list"

text \<open>
  \<^verbatim>\<open>absenteeData.filter(record => record.studentId === student.id ||
  record.matricule === student.matricule)\<close>: strict equality with a string holds for that
  string only.
\<close>

definition studentAbsences :: "Student \<Rightarrow> AbsenceRow list \<Rightarrow> AbsenceRow list" where
  "studentAbsences student absenteeData =
     filter (\<lambda>record. row_studentId record = JStr (st_id student)
                     \<or> row_matricule record = JStr (st_matricule student)) absenteeData"

definition absentSession :: "(string \<Rightarrow> int option) \<Rightarrow> AbsenceRow \<Rightarrow> AbsentSession" where
  "absentSession parse absence =
     \<lparr> ses_date = row_date absence,
       ses_course = row_courseTitle absence,
       ses_courseCode = row_courseCode absence,
       ses_duration = calculateSessionDuration parse (row_timeSlot absence),
       ses_timeSlot = row_timeSlot absence \<rparr>"

text \<open>The body of \<^verbatim>\<open>students.map(student => ...)\<close>; the \<^verbatim>\<open>reduce\<close> starts from 0.\<close>

definition studentHours ::
  "(string \<Rightarrow> int option) \<Rightarrow> AbsenceRow list \<Rightarrow> Student \<Rightarrow> StudentAbsenteeHours" where
  "studentHours parse absenteeData student =
     (let absentSessions = map (absentSession parse) (studentAbsences student absenteeData);
          totalAbsentHours =
            foldl (\<lambda>sum session. jsadd sum (ses_duration session)) (Num 0) absentSessions
      in \<lparr> sah_studentId = st_id student,
           sah_studentName = st_name student,
           sah_matricule = st_matricule student,
           sah_field = st_field student,
           sah_level = st_level student,
           sah_totalAbsentHours = totalAbsentHours,
           sah_absentSessions = absentSessions \<rparr>)"

definition hoursData ::
  "(string \<Rightarrow> int option) \<Rightarrow> Student list \<Rightarrow> AbsenceRow list \<Rightarrow> StudentAbsenteeHours list" where
  "hoursData parse students absenteeData = map (studentHours parse absenteeData) students"

text \<open>
  The sum of a list of numbers as JavaScript adds them: from the left, starting at 0, each
  addition rounded.
\<close>

definition js_sum :: "jsnum list \<Rightarrow> jsnum" where
  "js_sum ds = foldl jsadd (Num 0) ds"



subsection \<open>The component's state, the load and what is rendered\<close>

text \<open>The awaited call of \<^verbatim>\<open>APIService\<close>: the promise rejects or resolves.\<close>

datatype 'a api_result = Rejected | Resolved 'a

text \<open>
  Modelled from the spec: \<^verbatim>\<open>LocalDBService\<close> (\<^verbatim>\<open>../utils/localdb\<close> is not among the
  sources), the key-value store of section 6: \<^verbatim>\<open>getCachedData(key)\<close> gives what
  \<^verbatim>\<open>cacheData(key, value)\<close> stored last under the key, and \<^verbatim>\<open>null\<close> when nothing was.
\<close>

type_synonym 'v local_db = "string \<Rightarrow> 'v option"

definition cacheData :: "string \<Rightarrow> 'v \<Rightarrow> 'v local_db \<Rightarrow> 'v local_db" where
  "cacheData key v db = db(key \<mapsto> v)"

definition getCachedData :: "string \<Rightarrow> 'v local_db \<Rightarrow> 'v option" where
  "getCachedData key db = db key"

record hours_state =
  hs_absenteeHours :: "StudentAbsenteeHours list"
  hs_loading :: bool
  hs_selectedField :: string
  hs_error :: "string option"
  hs_localdb :: "StudentAbsenteeHours list local_db"

text \<open>
  \<^verbatim>\<open>loadAbsenteeHours\<close>: one call of the API, no loop around it. The \<^verbatim>\<open>catch\<close> sets the
  error first and then looks into the cache; \<^verbatim>\<open>if (cachedData)\<close> holds for every stored
  array. \<^verbatim>\<open>finally\<close> clears \<^verbatim>\<open>loading\<close> on both paths.
\<close>

definition loadAbsenteeHours ::
  "(string \<Rightarrow> int option) \<Rightarrow> Student list \<Rightarrow> AbsenceRow list api_result \<Rightarrow> hours_state
   \<Rightarrow> hours_state" where
  "loadAbsenteeHours parse students api st =
     (let st1 = st\<lparr> hs_loading := True, hs_error := None \<rparr> in
      (case api of
         Resolved absenteeData \<Rightarrow>
           (let hours = hoursData parse students absenteeData;
                st2 = st1\<lparr> hs_absenteeHours := hours \<rparr>;
                st3 = st2\<lparr> hs_localdb :=
                          cacheData ''rollcall_cached_absentee_hours'' hours (hs_localdb st2) \<rparr>
            in st3\<lparr> hs_loading := False \<rparr>)
       | Rejected \<Rightarrow>
           (let st2 = st1\<lparr> hs_error := Some ''Failed to load absentee hours data. Please try again.'' \<rparr>;
                st3 = (case getCachedData ''rollcall_cached_absentee_hours'' (hs_localdb st2) of
                         Some cachedData \<Rightarrow> st2\<lparr> hs_absenteeHours := cachedData \<rparr>
                       | None \<Rightarrow> st2)
            in st3\<lparr> hs_loading := False \<rparr>)))"

definition getFilteredData :: "hours_state \<Rightarrow> StudentAbsenteeHours list" where
  "getFilteredData st =
     (if hs_selectedField st = [] then hs_absenteeHours st
      else filter (\<lambda>data. sah_field data = hs_selectedField st) (hs_absenteeHours st))"

text \<open>
  What the component returns: the spinner while loading, else the red box with the message
  and the \<^verbatim>\<open>Try Again\<close> button whenever \<^verbatim>\<open>error\<close> is set, else the table of the
  filtered data.
\<close>

datatype hours_view =
  Spinner
| ErrorBoxWithTryAgain string
| HoursTable "StudentAbsenteeHours list"

definition render_hours :: "hours_state \<Rightarrow> hours_view" where
  "render_hours st =
     (if hs_loading st then Spinner
      else (case hs_error st of
              Some message \<Rightarrow> ErrorBoxWithTryAgain message
            | None \<Rightarrow> HoursTable (getFilteredData st)))"

text \<open>The label of the \<^verbatim>\<open>Risk Level\<close> column, a chain of \<^verbatim>\<open>>=\<close> tests.\<close>

definition riskLevel :: "jsnum \<Rightarrow> string" where
  "riskLevel totalAbsentHours =
     (if jsge totalAbsentHours (Num 15) then ''Critical''
      else if jsge totalAbsentHours (Num 10) then ''High''
      else if jsge totalAbsentHours (Num 5) then ''Medium''
      else ''Low'')"

section \<open>The reports page (\<^verbatim>\<open>Reports.tsx\<close>)\<close>

text \<open>
  \<^verbatim>\<open>AbsenteeRecord\<close> comes from \<^verbatim>\<open>../types\<close>; these are the fields the page reads, all
  printed or compared as strings. \<open>ar_\<close> and \<open>flt_\<close> prefix the fields of a record and
  of the \<^verbatim>\<open>FilterState\<close>.
\<close>

record AbsenteeRecord =
  ar_studentName :: string
  ar_matricule :: string
  ar_fieldName :: string
  ar_level :: string
  ar_courseTitle :: string
  ar_courseCode :: string
  ar_parentName :: string
  ar_parentPhone :: string
  ar_date :: string

record FilterState =
  flt_dateFrom :: string
  flt_dateTo :: string
  flt_fieldName :: string
  flt_level :: string
  flt_reportType :: string

subsection \<open>The filters of \<^verbatim>\<open>loadAbsenteeReport\<close>\<close>

text \<open>
  A \<^verbatim>\<open>Date\<close> is its time value in milliseconds since the epoch, \<open>None\<close> for an Invalid
  Date. The runtime's reading of a date text, \<^verbatim>\<open>new Date(text)\<close>, is the parameter
  \<open>parseDate\<close>. \<^verbatim>\<open>d.setHours(h, m, s, ms)\<close> keeps the local calendar day of \<open>d\<close> and
  replaces the local time of day; \<open>tz\<close> is the local offset from UTC in minutes.
  \<^verbatim>\<open>a >= b\<close> and \<^verbatim>\<open>a <= b\<close> on dates compare the time values, and are false when one
  is invalid.
\<close>

definition setHours :: "int \<Rightarrow> int option \<Rightarrow> int \<Rightarrow> int \<Rightarrow> int \<Rightarrow> int \<Rightarrow> int option" where
  "setHours tz d h m s ms =
     (case d of
        None \<Rightarrow> None
      | Some t \<Rightarrow>
          (let localDay = (t + tz * 60000) div 86400000
           in Some (localDay * 86400000 + h * 3600000 + m * 60000 + s * 1000 + ms - tz * 60000)))"

fun date_ge :: "int option \<Rightarrow> int option \<Rightarrow> bool" where
  "date_ge (Some a) (Some b) = (b \<le> a)"
| "date_ge _ _ = False"

fun date_le :: "int option \<Rightarrow> int option \<Rightarrow> bool" where
  "date_le (Some a) (Some b) = (a \<le> b)"
| "date_le _ _ = False"

definition dateFilter ::
  "(string \<Rightarrow> int option) \<Rightarrow> int \<Rightarrow> FilterState \<Rightarrow> AbsenteeRecord list \<Rightarrow> AbsenteeRecord list" where
  "dateFilter parseDate tz filters filteredData =
     (let fromDate = parseDate (flt_dateFrom filters);
          toDate = setHours tz (parseDate (flt_dateTo filters)) 23 59 59 999
      in filter (\<lambda>record.
                   (let recordDate = parseDate (ar_date record)
                    in date_ge recordDate fromDate \<and> date_le recordDate toDate))
           filteredData)"

definition applyFilters ::
  "(string \<Rightarrow> int option) \<Rightarrow> int \<Rightarrow> FilterState \<Rightarrow> AbsenteeRecord list \<Rightarrow> AbsenteeRecord list" where
  "applyFilters parseDate tz filters reportData =
     (let filteredData1 =
            (if flt_fieldName filters \<noteq> []
             then filter (\<lambda>record. ar_fieldName record = flt_fieldName filters) reportData
             else reportData);
          filteredData2 =
            (if flt_level filters \<noteq> []
             then filter (\<lambda>record. ar_level record = flt_level filters) filteredData1
             else filteredData1)
      in dateFilter parseDate tz filters filteredData2)"

record reports_state =
  rs_absentees :: "AbsenteeRecord list"
  rs_filters :: FilterState
  rs_loading :: bool
  rs_error :: "string option"
  rs_localdb :: "AbsenteeRecord list local_db"

text \<open>
  \<^verbatim>\<open>loadAbsenteeReport\<close>: the inner \<^verbatim>\<open>catch\<close> replaces a failed API call by
  \<^verbatim>\<open>getCachedData('rollcall_absentee_records') || []\<close> and sets no error. The
  filters that follow do not throw on a list of records, so the outer \<^verbatim>\<open>catch\<close> (the
  only place that sets \<^verbatim>\<open>error\<close>) has no branch here.
\<close>

definition loadAbsenteeReport ::
  "(string \<Rightarrow> int option) \<Rightarrow> int \<Rightarrow> AbsenteeRecord list api_result \<Rightarrow> reports_state \<Rightarrow> reports_state" where
  "loadAbsenteeReport parseDate tz api st =
     (let st1 = st\<lparr> rs_loading := True, rs_error := None \<rparr>;
          reportData =
            (case api of
               Resolved d \<Rightarrow> d
             | Rejected \<Rightarrow>
                 (case getCachedData ''rollcall_absentee_records'' (rs_localdb st1) of
                    Some localAbsentees \<Rightarrow> localAbsentees
                  | None \<Rightarrow> []));
          filteredData = applyFilters parseDate tz (rs_filters st1) reportData;
          st2 = st1\<lparr> rs_absentees := filteredData \<rparr>;
          st3 = (if length filteredData > 0
                 then st2\<lparr> rs_localdb := cacheData ''rollcall_cached_reports'' filteredData (rs_localdb st2) \<rparr>
                 else st2)
      in st3\<lparr> rs_loading := False \<rparr>)"

text \<open>
  The parts of the page that depend on the load: the red paragraph with the error text
  (it has no button), the spinner, the grouped tables, the \<^verbatim>\<open>No Absentees Found\<close> box.
\<close>

record reports_view =
  rv_errorMessage :: "string option"
  rv_spinner :: bool
  rv_groupedTables :: bool
  rv_emptyState :: bool

definition render_reports :: "reports_state \<Rightarrow> reports_view" where
  "render_reports st =
     \<lparr> rv_errorMessage = rs_error st,
       rv_spinner = rs_loading st,
       rv_groupedTables = (\<not> rs_loading st \<and> length (rs_absentees st) > 0),
       rv_emptyState = (\<not> rs_loading st \<and> length (rs_absentees st) = 0) \<rparr>"

subsection \<open>The CSV export (\<^verbatim>\<open>exportReport\<close>)\<close>

text \<open>
  The text handed to the \<^verbatim>\<open>Blob\<close>. \<open>toLocaleDateString\<close> stands for the runtime's
  \<^verbatim>\<open>new Date(text).toLocaleDateString()\<close>, which depends on the locale. The cells are
  joined as they are: nothing quotes or escapes a cell.
\<close>

definition csvHeader :: "string list" where
  "csvHeader = [''Student Name'', ''Matricule'', ''Field'', ''Level'', ''Course'',
                ''Parent Name'', ''Parent Phone'', ''Date'']"

definition csvCells :: "(string \<Rightarrow> string) \<Rightarrow> AbsenteeRecord \<Rightarrow> string list" where
  "csvCells toLocaleDateString record =
     [ ar_studentName record,
       ar_matricule record,
       ar_fieldName record,
       ar_level record,
       ar_courseTitle record @ '' ('' @ ar_courseCode record @ '')'',
       ar_parentName record,
       ar_parentPhone record,
       toLocaleDateString (ar_date record) ]"

definition newline :: char where
  "newline = CHR 0x0A"

definition exportReport :: "(string \<Rightarrow> string) \<Rightarrow> AbsenteeRecord list \<Rightarrow> string" where
  "exportReport toLocaleDateString absentees =
     Array_join [newline]
       (Array_join '','' csvHeader
        # map (\<lambda>record. Array_join '','' (csvCells toLocaleDateString record)) absentees)"

text \<open>Reading the file back: its rows are its lines, the columns of a row its pieces between commas.\<close>

definition csv_rows :: "string \<Rightarrow> string list" where
  "csv_rows text = String_split [newline] text"

definition csv_columns :: "string \<Rightarrow> string list" where
  "csv_columns row = String_split '','' row"

subsection \<open>Grouping by field (\<^verbatim>\<open>getGroupedAbsentees\<close>)\<close>

text \<open>
  The accumulator of the \<^verbatim>\<open>reduce\<close> is the object literal \<^verbatim>\<open>{}\<close>: its own properties
  are kept in the order they were created, and a key it does not own is looked up in
  \<^verbatim>\<open>Object.prototype\<close>. These are the names every such object inherits; each holds a
  function or an object, so \<^verbatim>\<open>!acc[key]\<close> is false for them, no array is created, and
  \<^verbatim>\<open>acc[key].push\<close> is not a function.
\<close>

definition Object_prototype_keys :: "string list" where
  "Object_prototype_keys =
     [''constructor'', ''hasOwnProperty'', ''isPrototypeOf'', ''propertyIsEnumerable'',
      ''toLocaleString'', ''toString'', ''valueOf'', ''__proto__'',
      ''__defineGetter__'', ''__defineSetter__'', ''__lookupGetter__'', ''__lookupSetter__'']"

datatype js_error = TypeError

type_synonym grouped = "(string \<times> AbsenteeRecord list) list"

definition push_to :: "string \<Rightarrow> AbsenteeRecord \<Rightarrow> grouped \<Rightarrow> grouped" where
  "push_to key record acc =
     map (\<lambda>(k, records). if k = key then (k, records @ [record]) else (k, records)) acc"

definition group_step :: "grouped \<Rightarrow> AbsenteeRecord \<Rightarrow> js_error + grouped" where
  "group_step acc record =
     (let key = ar_fieldName record in
      (case map_of acc key of
         Some _ \<Rightarrow> Inr (push_to key record acc)
       | None \<Rightarrow>
           if key \<in> set Object_prototype_keys then Inl TypeError
           else Inr (push_to key record (acc @ [(key, [])]))))"

fun group_reduce :: "grouped \<Rightarrow> AbsenteeRecord list \<Rightarrow> js_error + grouped" where
  "group_reduce acc [] = Inr acc"
| "group_reduce acc (record # rest) =
     (case group_step acc record of
        Inl e \<Rightarrow> Inl e
      | Inr acc' \<Rightarrow> group_reduce acc' rest)"

text \<open>
  \<^verbatim>\<open>Object.entries\<close> lists the own keys that are array indices first, in ascending numeric
  order, then the other keys in creation order. An array index is the canonical decimal
  text of a number below \<open>2^32 - 1\<close>.
\<close>

definition decimal_value :: "string \<Rightarrow> int" where
  "decimal_value s = foldl (\<lambda>n c. 10 * n + (of_char c - 48)) 0 s"

definition is_array_index :: "string \<Rightarrow> bool" where
  "is_array_index s =
     (s \<noteq> [] \<and> list_all (\<lambda>c. 48 \<le> (of_char c :: nat) \<and> (of_char c :: nat) \<le> 57) s
      \<and> (if hd s = CHR ''0'' then s = ''0'' else True)
      \<and> decimal_value s < 4294967295)"

definition Object_entries :: "grouped \<Rightarrow> grouped" where
  "Object_entries obj =
     sort_key (\<lambda>e. decimal_value (fst e)) (filter (\<lambda>e. is_array_index (fst e)) obj)
     @ filter (\<lambda>e. \<not> is_array_index (fst e)) obj"

text \<open>
  What the accumulator holds after the records \<open>rs\<close>: one entry per field name that occurs,
  each with the records of that name in their order.
\<close>

definition groups_of :: "AbsenteeRecord list \<Rightarrow> grouped \<Rightarrow> bool" where
  "groups_of rs acc \<longleftrightarrow>
     distinct (map fst acc) \<and> set (map fst acc) = ar_fieldName ` set rs \<and>
     list_all (\<lambda>(k, v). v = filter (\<lambda>r. ar_fieldName r = k) rs) acc"

record FieldGroup =
  grp_fieldName :: string
  grp_records :: "AbsenteeRecord list"
  grp_count :: nat

definition getGroupedAbsentees :: "AbsenteeRecord list \<Rightarrow> js_error + FieldGroup list" where
  "getGroupedAbsentees absentees =
     (case group_reduce [] absentees of
        Inl e \<Rightarrow> Inl e
      | Inr grouped \<Rightarrow>
          Inr (map (\<lambda>(fieldName, records).
                      \<lparr> grp_fieldName = fieldName, grp_records = records, grp_count = length records \<rparr>)
                 (Object_entries grouped)))"

section \<open>The endpoint \<^verbatim>\<open>get_student_absentee_hours.php\<close>\<close>

text \<open>
  A response is its status code and what the script has written to its body, in order.
  \<open>resp_queries\<close> counts the queries the script has run. The query and \<^verbatim>\<open>fetchAll\<close>
  either throw an \<^verbatim>\<open>Exception\<close> with a message or give all rows of the join.
\<close>

datatype 'row json = JsonError string | JsonRows "'row list"

record 'row response =
  resp_status :: nat
  resp_body :: "'row json list"
  resp_queries :: nat

datatype 'row query_result = Throws string | Fetched "'row list"

text \<open>
  Modelled from the spec: \<^verbatim>\<open>sendResponse\<close> of \<^verbatim>\<open>config.php\<close>, which is not among the
  sources. By section 6 the endpoint answers "405 on wrong method, 500 with
  \<^verbatim>\<open>{error: message}\<close> on query failure": \<^verbatim>\<open>sendResponse(data, code)\<close> sets the status
  code, writes the data as JSON and ends the request, so nothing of the script runs
  after it.
\<close>

definition sendResponse :: "'row json \<Rightarrow> nat \<Rightarrow> 'row response \<Rightarrow> 'row response" where
  "sendResponse data code r = r\<lparr> resp_status := code, resp_body := resp_body r @ [data] \<rparr>"

definition get_student_absentee_hours :: "string \<Rightarrow> 'row query_result \<Rightarrow> 'row response" where
  "get_student_absentee_hours method db =
     (let r0 = \<lparr> resp_status = 200, resp_body = [], resp_queries = 0 \<rparr> in
      if method \<noteq> ''GET'' then sendResponse (JsonError ''Method not allowed'') 405 r0
      else
        (let r1 = r0\<lparr> resp_queries := 1 \<rparr> in
         (case db of
            Fetched absenteeData \<Rightarrow> r1\<lparr> resp_body := resp_body r1 @ [JsonRows absenteeData] \<rparr>
          | Throws message \<Rightarrow>
              sendResponse (JsonError (''Failed to fetch student absentee hours: '' @ message)) 500 r1)))"

section \<open>Runtime answers at the concrete inputs used below\<close>

text \<open>
  What \<^verbatim>\<open>new Date(text)\<close> gives, in a runtime whose local time is five hours behind UTC,
  for the two texts of the date-filter example: a date-only ISO text is read as midnight
  UTC of that day (946771200000 is 2000-01-02T00:00:00Z), a text with a time of day and no
  offset as local time (noon local is 17:00:00Z).
\<close>

definition parseDate_UTC_minus_5 :: "string \<Rightarrow> int option" where
  "parseDate_UTC_minus_5 text =
     (if text = ''2000-01-02'' then Some 946771200000
      else if text = ''2000-01-02 12:00:00'' then Some 946832400000
      else None)"

text \<open>
  The same one hour ahead of UTC: the date-only text is still midnight UTC, and 00:30 local
  time on 2000-01-02 is 23:30:00Z of the day before (946769400000).
\<close>

definition parseDate_UTC_plus_1 :: "string \<Rightarrow> int option" where
  "parseDate_UTC_plus_1 text =
     (if text = ''2000-01-02'' then Some 946771200000
      else if text = ''2000-01-02 00:30:00'' then Some 946769400000
      else None)"

text \<open>The calendar day (in days since the epoch) on which a time falls at offset \<open>tz\<close>.\<close>

definition calendarDay :: "int \<Rightarrow> int \<Rightarrow> int" where
  "calendarDay tz t = (t + tz * 60000) div 86400000"

text \<open>\<^verbatim>\<open>toLocaleDateString\<close> of the en-US locale at the date text of the export examples.\<close>

definition toLocaleDateString_en_US :: "string \<Rightarrow> string" where
  "toLocaleDateString_en_US text = (if text = ''2000-01-02'' then ''1/2/2000'' else ''Invalid Date'')"

section \<open>Properties of the rounding\<close>

lemma round_to_even_of_int [simp]: "round_to_even (of_int n) = n"
  by (simp add: round_to_even_def)

lemma round_to_even_error: "\<bar>of_int (round_to_even x) - x\<bar> \<le> 1 / 2"
proof -
  have "of_int \<lfloor>x\<rfloor> \<le> x" "x < of_int \<lfloor>x\<rfloor> + 1"
    by linarith+
  then show ?thesis
    by (auto simp: round_to_even_def Let_def)
qed

lemma bitlen_powi_bounds:
  assumes "0 < a"
  shows "(2::rat) powi (bitlen a - 1) \<le> of_int a" "of_int a < (2::rat) powi bitlen a"
proof -
  from assms have b1: "1 \<le> bitlen a"
    by (simp add: bitlen_alt_def)
  from bitlen_bounds [OF assms] have l: "2 ^ nat (bitlen a - 1) \<le> a" and u: "a < 2 ^ nat (bitlen a)"
    by simp_all
  have "(2::rat) powi (bitlen a - 1) = 2 ^ nat (bitlen a - 1)"
    using b1 by (simp add: power_int_nonneg_exp)
  also have "\<dots> = of_int (2 ^ nat (bitlen a - 1))" by simp
  also have "\<dots> \<le> of_int a" using l by (simp only: of_int_le_iff)
  finally show "(2::rat) powi (bitlen a - 1) \<le> of_int a" .
  have "of_int a < (of_int (2 ^ nat (bitlen a)) :: rat)" using u by (simp only: of_int_less_iff)
  also have "\<dots> = 2 ^ nat (bitlen a)" by simp
  also have "\<dots> = 2 powi bitlen a"
    using b1 by (simp add: power_int_nonneg_exp)
  finally show "of_int a < (2::rat) powi bitlen a" .
qed

lemma binary_exponent_bounds:
  assumes "q \<noteq> 0"
  shows "2 powi binary_exponent q \<le> \<bar>q\<bar>" "\<bar>q\<bar> < 2 powi (binary_exponent q + 1)"
proof -
  obtain a b where ab: "quotient_of \<bar>q\<bar> = (a, b)" by (cases "quotient_of \<bar>q\<bar>")
  then have b: "0 < b" and q: "\<bar>q\<bar> = of_int a / of_int b"
    by (simp_all add: quotient_of_denom_pos quotient_of_div)
  have a: "0 < a"
  proof -
    have "0 < \<bar>q\<bar>" using assms by simp
    then have "0 < (of_int a :: rat) / of_int b" using q by simp
    then show ?thesis using b by (simp add: zero_less_divide_iff)
  qed
  define k where "k = bitlen a - bitlen b"
  have up: "\<bar>q\<bar> < 2 powi (k + 1)"
  proof -
    have "of_int a / of_int b < (2::rat) powi bitlen a / of_int b"
      using bitlen_powi_bounds(2) [OF a] b by (simp add: divide_strict_right_mono)
    also have "\<dots> \<le> 2 powi bitlen a / 2 powi (bitlen b - 1)"
      using bitlen_powi_bounds(1) [OF b] by (simp add: frac_le)
    also have "\<dots> = 2 powi (k + 1)"
      by (simp add: k_def power_int_diff [symmetric] algebra_simps)
    finally show ?thesis using q by simp
  qed
  have lo: "2 powi (k - 1) \<le> \<bar>q\<bar>"
  proof -
    have "(2::rat) powi (k - 1) = 2 powi (bitlen a - 1) / 2 powi bitlen b"
      by (simp add: k_def power_int_diff [symmetric] algebra_simps)
    also have "\<dots> \<le> of_int a / 2 powi bitlen b"
      using bitlen_powi_bounds(1) [OF a] by (simp add: divide_right_mono)
    also have "\<dots> \<le> of_int a / of_int b"
      using bitlen_powi_bounds(2) [OF b] a b by (simp add: frac_le)
    finally show ?thesis using q by simp
  qed
  have e: "binary_exponent q = (if 2 powi k \<le> \<bar>q\<bar> then k else k - 1)"
    by (simp add: binary_exponent_def ab k_def Let_def)
  show "2 powi binary_exponent q \<le> \<bar>q\<bar>"
    using lo by (simp add: e)
  show "\<bar>q\<bar> < 2 powi (binary_exponent q + 1)"
    using up by (auto simp: e not_le)
qed

lemma two_powi_less_D: "(2::rat) powi a < 2 powi b \<Longrightarrow> a < b"
proof (rule ccontr)
  assume l: "(2::rat) powi a < 2 powi b" and "\<not> a < b"
  then have "b \<le> a" by simp
  then have "(2::rat) powi b \<le> 2 powi a"
    by (rule power_int_increasing) simp
  with l show False by simp
qed

lemma floor_rat_numeral: "\<lfloor>numeral a / numeral b :: rat\<rfloor> = numeral a div numeral b"
  using floor_divide_of_int_eq [of "numeral a" "numeral b", where ?'a = rat] by simp

lemma floor_rat_neg_numeral: "\<lfloor>- (numeral a / numeral b) :: rat\<rfloor> = - numeral a div numeral b"
  using floor_divide_of_int_eq [of "- numeral a" "numeral b", where ?'a = rat] by simp

lemma binary_exponent_unique:
  assumes "2 powi e \<le> \<bar>q\<bar>" "\<bar>q\<bar> < 2 powi (e + 1)"
  shows "binary_exponent q = e"
proof -
  have "(0::rat) < 2 powi e" by simp
  with assms(1) have "0 < \<bar>q\<bar>" by linarith
  then have q: "q \<noteq> 0" by simp
  note b = binary_exponent_bounds [OF q]
  have "(2::rat) powi e < 2 powi (binary_exponent q + 1)"
    using assms(1) b(2) by linarith
  then have 1: "e < binary_exponent q + 1"
    by (rule two_powi_less_D)
  have "(2::rat) powi binary_exponent q < 2 powi (e + 1)"
    using assms(2) b(1) by linarith
  then have 2: "binary_exponent q < e + 1"
    by (rule two_powi_less_D)
  from 1 2 show ?thesis by linarith
qed


lemma binary_exponent_ge:
  assumes "2 powi e \<le> \<bar>q\<bar>"
  shows "e \<le> binary_exponent q"
proof -
  have "(0::rat) < 2 powi e" by simp
  with assms have "0 < \<bar>q\<bar>" by linarith
  then have q: "q \<noteq> 0" by simp
  have "(2::rat) powi e < 2 powi (binary_exponent q + 1)"
    using assms binary_exponent_bounds(2) [OF q] by linarith
  then have "e < binary_exponent q + 1"
    by (rule two_powi_less_D)
  then show ?thesis by simp
qed

lemma binary64_at:
  assumes "2 powi e \<le> \<bar>q\<bar>" "\<bar>q\<bar> < 2 powi (e + 1)" "- 1022 \<le> e"
  shows "binary64 q = of_int (round_to_even (q / 2 powi (e - 52))) * 2 powi (e - 52)"
proof -
  have "(0::rat) < 2 powi e" by simp
  with assms(1) have "0 < \<bar>q\<bar>" by linarith
  then have q: "q \<noteq> 0" by simp
  have "binary_exponent q = e"
    using assms(1,2) by (rule binary_exponent_unique)
  then show ?thesis
    using q assms(3) by (simp add: binary64_def Let_def max_def)
qed

lemma binary64_representable:
  assumes m: "\<bar>m\<bar> < 2 ^ 53" and k: "- 1074 \<le> k"
  shows "binary64 (of_int m * 2 powi k) = of_int m * 2 powi k"
proof (cases "m = 0")
  case True
  then show ?thesis by (simp add: binary64_def)
next
  case False
  define q :: rat where "q = of_int m * 2 powi k"
  have q: "q \<noteq> 0" using False by (simp add: q_def)
  define E where "E = max (binary_exponent q) (- 1022)"
  have "0 \<le> k - E + 52"
  proof (cases "binary_exponent q \<le> - 1022")
    case True
    then show ?thesis using k by (simp add: E_def max_def)
  next
    case False
    then have E: "E = binary_exponent q" by (simp add: E_def max_def)
    have "(2::rat) powi E \<le> \<bar>q\<bar>"
      using binary_exponent_bounds(1) [OF q] by (simp add: E)
    also have "\<bar>q\<bar> = of_int \<bar>m\<bar> * 2 powi k"
      by (simp add: q_def abs_mult)
    also have "\<dots> < 2 ^ 53 * 2 powi k"
    proof -
      have "(of_int \<bar>m\<bar> :: rat) < of_int (2 ^ 53)"
        using m by (simp only: of_int_less_iff)
      then show ?thesis by (simp add: mult_strict_right_mono)
    qed
    also have "\<dots> = 2 powi (53 + k)"
      by (simp add: power_int_add)
    finally have "E < 53 + k"
      by (rule two_powi_less_D)
    then show ?thesis by simp
  qed
  then obtain n where n: "k - E + 52 = int n"
    using nonneg_int_cases by blast
  have "q / 2 powi (E - 52) = of_int m * 2 powi (k - (E - 52))"
    by (simp add: q_def power_int_diff)
  also have "k - (E - 52) = int n" using n by simp
  also have "of_int m * (2::rat) powi int n = of_int (m * 2 ^ n)"
    by simp
  finally have r: "round_to_even (q / 2 powi (E - 52)) = m * 2 ^ n"
    by (simp only: round_to_even_of_int)
  have "binary64 q = of_int (m * 2 ^ n) * 2 powi (E - 52)"
    using q by (simp add: binary64_def Let_def E_def [symmetric] r)
  also have "\<dots> = of_int m * (2 powi int n * 2 powi (E - 52))"
    by simp
  also have "2 powi int n * (2::rat) powi (E - 52) = 2 powi (int n + (E - 52))"
    by (simp add: power_int_add)
  also have "int n + (E - 52) = k" using n by simp
  finally show ?thesis by (simp add: q_def)
qed

lemma binary64_of_int:
  assumes "\<bar>n\<bar> < 2 ^ 53"
  shows "binary64 (of_int n) = of_int n"
  using binary64_representable [OF assms, of 0] by simp

lemma binary64_quarters:
  assumes "\<bar>n\<bar> < 2 ^ 53"
  shows "binary64 (of_int n / 4) = of_int n / 4"
  using binary64_representable [OF assms, of "- 2"] by (simp add: power_int_minus_divide)

lemma binary64_error:
  assumes "2 powi (- 1022) \<le> \<bar>q\<bar>"
  shows "\<bar>binary64 q - q\<bar> \<le> \<bar>q\<bar> / 2 ^ 53"
proof -
  have "(0::rat) < 2 powi (- 1022)" by simp
  with assms have "0 < \<bar>q\<bar>" by linarith
  then have q: "q \<noteq> 0" by simp
  define e where "e = binary_exponent q"
  have e: "- 1022 \<le> e" using binary_exponent_ge [OF assms] by (simp add: e_def)
  define ulp :: rat where "ulp = 2 powi (e - 52)"
  have ulp: "0 < ulp" by (simp add: ulp_def)
  have b: "binary64 q = of_int (round_to_even (q / ulp)) * ulp"
    using q e by (simp add: binary64_def Let_def e_def [symmetric] ulp_def max_def)
  have "binary64 q - q = (of_int (round_to_even (q / ulp)) - q / ulp) * ulp"
    using ulp by (simp add: b algebra_simps)
  then have "\<bar>binary64 q - q\<bar> = \<bar>of_int (round_to_even (q / ulp)) - q / ulp\<bar> * ulp"
    using ulp by (simp add: abs_mult)
  also have "\<dots> \<le> 1 / 2 * ulp"
    using round_to_even_error [of "q / ulp"] ulp by (simp add: mult_right_mono)
  also have "1 / 2 * ulp = 2 powi e / 2 ^ 53"
    by (simp add: ulp_def power_int_diff)
  also have "\<dots> \<le> \<bar>q\<bar> / 2 ^ 53"
    using binary_exponent_bounds(1) [OF q] by (simp add: e_def divide_right_mono)
  finally show ?thesis .
qed

section \<open>Properties of the session duration\<close>

lemma split_go_no_sep: "h \<notin> set x \<Longrightarrow> split_go (h # sep') x = [x]"
  by (induction x) auto

lemma split_go_first:
  "h \<notin> set x \<Longrightarrow> split_go (h # sep') (x @ (h # sep') @ rest) = x # split_go (h # sep') rest"
  by (induction x) auto

lemma digit_val_digit_char: "k < 10 \<Longrightarrow> digit_val (digit_char k) = Some k"
  by (simp add: digit_val_def digit_char_def Let_def)

lemma digit_char_not_space: "k < 10 \<Longrightarrow> CHR '' '' \<noteq> digit_char k"
proof
  assume k: "k < 10" and e: "CHR '' '' = digit_char k"
  have "(of_char (digit_char k) :: nat) = 48 + k"
    using k by (simp add: digit_char_def)
  with e [symmetric] show False by simp
qed

lemma parse_two_digits_two_digits:
  assumes "n < 100"
  shows "parse_two_digits (digit_char (n div 10)) (digit_char (n mod 10)) = Some n"
proof -
  have a: "n div 10 < 10" using assms by simp
  have b: "n mod 10 < 10" by simp
  show ?thesis
    by (simp add: parse_two_digits_def digit_val_digit_char [OF a] digit_val_digit_char [OF b])
qed

lemma parse_time_of_day_hhmm:
  assumes "h < 24" "m < 60"
  shows "parse_time_of_day (hhmm h m) = Some (h * 60 + m)"
proof -
  have a: "h < 100" and b: "m < 100" using assms by simp_all
  show ?thesis
    using assms
    by (simp add: hhmm_def two_digits_def parse_two_digits_two_digits [OF a]
        parse_two_digits_two_digits [OF b])
qed

lemma space_notin_hhmm:
  assumes "h < 24" "m < 60"
  shows "CHR '' '' \<notin> set (hhmm h m)"
proof -
  have "h div 10 < 10" "h mod 10 < 10" "m div 10 < 10" "m mod 10 < 10"
    using assms by simp_all
  then show ?thesis
    by (simp add: hhmm_def two_digits_def digit_char_not_space)
qed

lemma Date_new_hhmm:
  assumes "h < 24" "m < 60"
  shows "Date_new tz (''2000-01-01 '' @ hhmm h m) =
         Some (946684800000 - tz * 60000 + int (h * 60 + m) * 60000)"
  by (simp add: Date_new_def parse_time_of_day_hhmm [OF assms])

lemma split_valid_slot:
  assumes "h1 < 24" "m1 < 60" "h2 < 24" "m2 < 60"
  shows "String_split '' - '' (hhmm h1 m1 @ '' - '' @ hhmm h2 m2) = [hhmm h1 m1, hhmm h2 m2]"
proof -
  have a: "CHR '' '' \<notin> set (hhmm h1 m1)" and b: "CHR '' '' \<notin> set (hhmm h2 m2)"
    using assms by (simp_all add: space_notin_hhmm)
  have "split_go (CHR '' '' # ''- '') (hhmm h1 m1 @ (CHR '' '' # ''- '') @ hhmm h2 m2)
        = hhmm h1 m1 # split_go (CHR '' '' # ''- '') (hhmm h2 m2)"
    using a by (rule split_go_first)
  also have "split_go (CHR '' '' # ''- '') (hhmm h2 m2) = [hhmm h2 m2]"
    using b by (rule split_go_no_sep)
  finally show ?thesis by (simp add: String_split_def)
qed

lemma template_elem_two: "template_elem [a, b] 0 = a" "template_elem [a, b] 1 = b"
  by (simp_all add: template_elem_def)

lemma calculateSessionDuration_parsed:
  assumes "s \<noteq> []"
    and "String_split '' - '' s = [a, b]"
    and "parse (''2000-01-01 '' @ a) = Some x"
    and "parse (''2000-01-01 '' @ b) = Some y"
  shows "calculateSessionDuration parse (JStr s) =
         Num (max (binary64 (binary64 (of_int y - of_int x) / 3600000)) 1)"
  using assms
  by (simp add: calculateSessionDuration_def template_elem_def getTime_def Let_def)

lemma minutes_of_day_diff:
  assumes "h1 < 24" "m1 < 60" "h2 < 24" "m2 < 60"
  shows "\<bar>int (h2 * 60 + m2) - int (h1 * 60 + m1)\<bar> < 1440"
  using assms by linarith

text \<open>
  Claim C1. For every valid time slot \<^verbatim>\<open>"HH:MM - HH:MM"\<close> (hours below 24, minutes below
  60, two digits each), in a runtime that reads the two texts \<^verbatim>\<open>"2000-01-01 HH:MM"\<close> as
  those times of day of one day, \<^verbatim>\<open>calculateSessionDuration\<close> returns the time from
  start to end in hours as the division by \<^verbatim>\<open>1000 * 60 * 60\<close> gives it, clamped below
  at 1: \<open>max (binary64 ((end - start) / 60)) 1\<close> with start and end in minutes of the day.
  The rounded quotient differs from the exact one by at most the fraction \<open>2^-53\<close> of
  it, and is the exact one when the length is a whole number of quarter hours.
\<close>

theorem calculateSessionDuration_valid_slot:
  assumes "h1 < 24" "m1 < 60" "h2 < 24" "m2 < 60"
    and "parse (''2000-01-01 '' @ hhmm h1 m1) = Some (midnight + int (h1 * 60 + m1) * 60000)"
    and "parse (''2000-01-01 '' @ hhmm h2 m2) = Some (midnight + int (h2 * 60 + m2) * 60000)"
  shows "calculateSessionDuration parse (JStr (hhmm h1 m1 @ '' - '' @ hhmm h2 m2)) =
           Num (max (binary64 ((of_nat (h2 * 60 + m2) - of_nat (h1 * 60 + m1)) / 60)) 1) \<and>
         \<bar>binary64 ((of_nat (h2 * 60 + m2) - of_nat (h1 * 60 + m1)) / 60)
            - (of_nat (h2 * 60 + m2) - of_nat (h1 * 60 + m1)) / 60\<bar>
           \<le> \<bar>(of_nat (h2 * 60 + m2) - of_nat (h1 * 60 + m1)) / 60\<bar> / 2 ^ 53 \<and>
         (15 dvd (int (h2 * 60 + m2) - int (h1 * 60 + m1)) \<longrightarrow>
            binary64 ((of_nat (h2 * 60 + m2) - of_nat (h1 * 60 + m1)) / 60) =
            (of_nat (h2 * 60 + m2) - of_nat (h1 * 60 + m1)) / 60)"
proof -
  define d where "d = int (h2 * 60 + m2) - int (h1 * 60 + m1)"
  define q :: rat where "q = of_int d / 60"
  have q: "(of_nat (h2 * 60 + m2) - of_nat (h1 * 60 + m1)) / 60 = q"
    by (simp add: q_def d_def)
  have d: "\<bar>d\<bar> < 1440"
    unfolding d_def using assms(1-4) by (rule minutes_of_day_diff)
  have ne: "hhmm h1 m1 @ '' - '' @ hhmm h2 m2 \<noteq> []"
    by simp
  have sp: "String_split '' - '' (hhmm h1 m1 @ '' - '' @ hhmm h2 m2) = [hhmm h1 m1, hhmm h2 m2]"
    using assms(1-4) by (rule split_valid_slot)
  have ms: "rat_of_int (midnight + int (h2 * 60 + m2) * 60000)
            - rat_of_int (midnight + int (h1 * 60 + m1) * 60000) = of_int (d * 60000)"
    by (simp add: d_def algebra_simps)
  have "\<bar>d * 60000\<bar> < 2 ^ 53"
    using d by (simp add: abs_mult)
  then have sub: "binary64 (of_int (d * 60000)) = of_int (d * 60000)"
    by (rule binary64_of_int)
  have "rat_of_int (d * 60000) / 3600000 = q"
    by (simp add: q_def)
  then have val: "calculateSessionDuration parse (JStr (hhmm h1 m1 @ '' - '' @ hhmm h2 m2)) =
                  Num (max (binary64 q) 1)"
    using calculateSessionDuration_parsed [OF ne sp assms(5) assms(6)]
    by (simp only: ms sub)
  have err: "\<bar>binary64 q - q\<bar> \<le> \<bar>q\<bar> / 2 ^ 53"
  proof (cases "d = 0")
    case True
    then show ?thesis by (simp add: q_def binary64_def)
  next
    case False
    then have "1 \<le> \<bar>d\<bar>" by simp
    then have "(1::rat) \<le> of_int \<bar>d\<bar>" by (simp only: of_int_1_le_iff)
    then have "(1::rat) / 60 \<le> \<bar>q\<bar>"
      by (simp add: q_def)
    moreover have "(2::rat) powi (- 1022) \<le> 1 / 60"
    proof -
      have "(2::rat) powi (- 1022) \<le> 2 powi (- 6)"
        by (rule power_int_increasing) simp_all
      also have "\<dots> \<le> 1 / 60" by (simp add: power_int_minus_divide)
      finally show ?thesis .
    qed
    ultimately have "(2::rat) powi (- 1022) \<le> \<bar>q\<bar>" by linarith
    then show ?thesis by (rule binary64_error)
  qed
  have exact: "binary64 q = q" if "15 dvd d"
  proof -
    from that obtain j where j: "d = 15 * j" by (auto simp: dvd_def)
    then have "\<bar>j\<bar> < 2 ^ 53" using d by simp
    then have "binary64 (of_int j / 4) = of_int j / 4"
      by (rule binary64_quarters)
    moreover have "q = of_int j / 4" by (simp add: q_def j)
    ultimately show ?thesis by (simp only:)
  qed
  show ?thesis
    unfolding q using val err exact by (simp add: d_def)
qed

lemma binary64_five_halves: "binary64 (5 / 2) = 5 / 2"
  using binary64_quarters [of 10] by simp

lemma binary64_seven_sixths: "binary64 (7 / 6) = 5254199565265579 / 4503599627370496"
  by code_simp

lemma binary64_half: "binary64 (1 / 2) = 1 / 2"
  using binary64_quarters [of 2] by simp

theorem calculateSessionDuration_valid_slot_witness:
  "hhmm 9 0 @ '' - '' @ hhmm 11 30 = ''09:00 - 11:30'' \<and>
   calculateSessionDuration (Date_new 60) (JStr ''09:00 - 11:30'') = Num (5 / 2) \<and>
   hhmm 9 0 @ '' - '' @ hhmm 10 10 = ''09:00 - 10:10'' \<and>
   calculateSessionDuration (Date_new 60) (JStr ''09:00 - 10:10'') =
     Num (5254199565265579 / 4503599627370496) \<and>
   hhmm 14 0 @ '' - '' @ hhmm 14 30 = ''14:00 - 14:30'' \<and>
   calculateSessionDuration (Date_new 60) (JStr ''14:00 - 14:30'') = Num 1"
proof -
  have a: "hhmm 9 0 @ '' - '' @ hhmm 11 30 = ''09:00 - 11:30''"
    by (simp add: hhmm_def two_digits_def digit_char_def char_of_eq_iff)
  have b: "hhmm 9 0 @ '' - '' @ hhmm 10 10 = ''09:00 - 10:10''"
    by (simp add: hhmm_def two_digits_def digit_char_def char_of_eq_iff)
  have c: "hhmm 14 0 @ '' - '' @ hhmm 14 30 = ''14:00 - 14:30''"
    by (simp add: hhmm_def two_digits_def digit_char_def char_of_eq_iff)
  have p: "Date_new 60 (''2000-01-01 '' @ hhmm h m) =
           Some (946681200000 + int (h * 60 + m) * 60000)" if "h < 24" "m < 60" for h m
    using Date_new_hhmm [OF that, of 60] by simp
  have p0900: "Date_new 60 (''2000-01-01 '' @ hhmm 9 0) =
           Some (946681200000 + int (9 * 60 + 0) * 60000)"
    by (rule p) simp_all
  have p1130: "Date_new 60 (''2000-01-01 '' @ hhmm 11 30) =
           Some (946681200000 + int (11 * 60 + 30) * 60000)"
    by (rule p) simp_all
  have p1010: "Date_new 60 (''2000-01-01 '' @ hhmm 10 10) =
           Some (946681200000 + int (10 * 60 + 10) * 60000)"
    by (rule p) simp_all
  have p1400: "Date_new 60 (''2000-01-01 '' @ hhmm 14 0) =
           Some (946681200000 + int (14 * 60 + 0) * 60000)"
    by (rule p) simp_all
  have p1430: "Date_new 60 (''2000-01-01 '' @ hhmm 14 30) =
           Some (946681200000 + int (14 * 60 + 30) * 60000)"
    by (rule p) simp_all
  have "calculateSessionDuration (Date_new 60) (JStr (hhmm 9 0 @ '' - '' @ hhmm 11 30)) = Num (5 / 2)"
    using calculateSessionDuration_valid_slot [OF _ _ _ _ p0900 p1130]
    by (simp add: binary64_five_halves)
  moreover
  have "calculateSessionDuration (Date_new 60) (JStr (hhmm 9 0 @ '' - '' @ hhmm 10 10)) =
        Num (5254199565265579 / 4503599627370496)"
    using calculateSessionDuration_valid_slot [OF _ _ _ _ p0900 p1010]
    by (simp add: binary64_seven_sixths)
  moreover
  have "calculateSessionDuration (Date_new 60) (JStr (hhmm 14 0 @ '' - '' @ hhmm 14 30)) = Num 1"
    using calculateSessionDuration_valid_slot [OF _ _ _ _ p1400 p1430]
    by (simp add: binary64_half)
  ultimately show ?thesis unfolding a b c using a b c by simp
qed

text \<open>A missing or empty slot, and a truthy value that is no string, give the default.\<close>

lemma calculateSessionDuration_default:
  "calculateSessionDuration parse JNull = Num 2 \<and>
   calculateSessionDuration parse (JStr []) = Num 2 \<and>
   calculateSessionDuration parse (JNum n) = Num 2"
  by (simp add: calculateSessionDuration_def)

lemma calculateSessionDuration_abc: "calculateSessionDuration (Date_new tz) (JStr ''abc'') = NaN"
  by (simp add: calculateSessionDuration_def String_split_def template_elem_def Date_new_def
      getTime_def Let_def)

text \<open>
  Claim C2. A malformed time slot should give the default of 2 hours. It does not: for the
  text \<^verbatim>\<open>"abc"\<close>, and for \<^verbatim>\<open>"09:00"\<close> which has no end, the two dates are invalid,
  nothing throws, the \<^verbatim>\<open>catch\<close> with its default is not reached and the result is NaN.
\<close>

theorem calculateSessionDuration_malformed_is_NaN:
  "calculateSessionDuration (Date_new tz) (JStr ''abc'') = NaN \<and>
   calculateSessionDuration (Date_new tz) (JStr ''09:00'') = NaN \<and>
   NaN \<noteq> Num 2"
  by (simp add: calculateSessionDuration_def String_split_def template_elem_def Date_new_def
      getTime_def Let_def)

section \<open>Properties of the aggregation\<close>

lemma foldl_jsadd_NaN: "foldl jsadd NaN ds = NaN"
  by (induction ds) simp_all

lemma foldl_jsadd_NaN_mem: "NaN \<in> set ds \<Longrightarrow> foldl jsadd a ds = NaN"
proof (induction ds arbitrary: a)
  case Nil
  then show ?case by simp
next
  case (Cons d ds)
  show ?case
  proof (cases "d = NaN")
    case True
    then show ?thesis by (cases a) (simp_all add: foldl_jsadd_NaN)
  next
    case False
    with Cons.prems have "NaN \<in> set ds" by simp
    then show ?thesis by (simp add: Cons.IH)
  qed
qed

lemma js_sum_NaN: "NaN \<in> set ds \<Longrightarrow> js_sum ds = NaN"
  by (simp add: js_sum_def foldl_jsadd_NaN_mem)







text \<open>
  Nine sessions of 100 minutes: each lasts 1.6666666666666667 hours, the total is
  14.999999999999998 and not 15, and the risk level shown is High.
\<close>

lemma nine_sessions_of_100_minutes:
  "calculateSessionDuration (Date_new 60) (JStr ''08:00 - 09:40'') =
     Num (7505999378950827 / 4503599627370496) \<and>
   js_sum (replicate 9 (calculateSessionDuration (Date_new 60) (JStr ''08:00 - 09:40''))) =
     Num (8444249301319679 / 562949953421312) \<and>
   riskLevel (js_sum (replicate 9 (calculateSessionDuration (Date_new 60) (JStr ''08:00 - 09:40''))))
     = ''High''"
  by code_simp

text \<open>
  Claim C8. The aggregation gives exactly one entry per input student, in the order of the
  input list, each carrying that student's id, name, matricule, field and level; a student
  no absentee row matches still has an entry, with \<^verbatim>\<open>totalAbsentHours\<close> 0 and no absent
  session.
\<close>

theorem hoursData_one_entry_per_student:
  "length (hoursData parse students absenteeData) = length students \<and>
   (\<forall>i<length students.
      sah_studentId (hoursData parse students absenteeData ! i) = st_id (students ! i) \<and>
      sah_studentName (hoursData parse students absenteeData ! i) = st_name (students ! i) \<and>
      sah_matricule (hoursData parse students absenteeData ! i) = st_matricule (students ! i) \<and>
      sah_field (hoursData parse students absenteeData ! i) = st_field (students ! i) \<and>
      sah_level (hoursData parse students absenteeData ! i) = st_level (students ! i) \<and>
      ((\<forall>record\<in>set absenteeData.
           row_studentId record \<noteq> JStr (st_id (students ! i)) \<and>
           row_matricule record \<noteq> JStr (st_matricule (students ! i))) \<longrightarrow>
       sah_totalAbsentHours (hoursData parse students absenteeData ! i) = Num 0 \<and>
       sah_absentSessions (hoursData parse students absenteeData ! i) = []))"
proof -
  have empty: "studentAbsences s absenteeData = []"
    if "\<forall>record\<in>set absenteeData.
           row_studentId record \<noteq> JStr (st_id s) \<and> row_matricule record \<noteq> JStr (st_matricule s)"
    for s
    using that by (simp add: studentAbsences_def filter_empty_conv)
  show ?thesis
    by (simp add: hoursData_def studentHours_def Let_def empty)
qed

theorem hoursData_one_entry_per_student_witness:
  "length
     (hoursData (Date_new 60)
        [\<lparr> st_id = ''7'', st_name = ''Ada'', st_matricule = ''M7'', st_field = ''Computer Science'',
           st_level = ''Level 100'' \<rparr>,
         \<lparr> st_id = ''9'', st_name = ''Bea'', st_matricule = ''M9'', st_field = ''Data Science'',
           st_level = ''Level 200'' \<rparr>]
        [\<lparr> row_studentId = JStr ''7'', row_matricule = JStr ''M7'', row_date = JStr ''2000-01-02'',
           row_courseTitle = JStr ''Algebra'', row_courseCode = JStr ''MA1'',
           row_timeSlot = JNull \<rparr>]) = 2 \<and>
   sah_studentId
     (hoursData (Date_new 60)
        [\<lparr> st_id = ''7'', st_name = ''Ada'', st_matricule = ''M7'', st_field = ''Computer Science'',
           st_level = ''Level 100'' \<rparr>,
         \<lparr> st_id = ''9'', st_name = ''Bea'', st_matricule = ''M9'', st_field = ''Data Science'',
           st_level = ''Level 200'' \<rparr>]
        [\<lparr> row_studentId = JStr ''7'', row_matricule = JStr ''M7'', row_date = JStr ''2000-01-02'',
           row_courseTitle = JStr ''Algebra'', row_courseCode = JStr ''MA1'',
           row_timeSlot = JNull \<rparr>] ! 1) = ''9'' \<and>
   sah_totalAbsentHours
     (hoursData (Date_new 60)
        [\<lparr> st_id = ''7'', st_name = ''Ada'', st_matricule = ''M7'', st_field = ''Computer Science'',
           st_level = ''Level 100'' \<rparr>,
         \<lparr> st_id = ''9'', st_name = ''Bea'', st_matricule = ''M9'', st_field = ''Data Science'',
           st_level = ''Level 200'' \<rparr>]
        [\<lparr> row_studentId = JStr ''7'', row_matricule = JStr ''M7'', row_date = JStr ''2000-01-02'',
           row_courseTitle = JStr ''Algebra'', row_courseCode = JStr ''MA1'',
           row_timeSlot = JNull \<rparr>] ! 1) = Num 0 \<and>
   sah_absentSessions
     (hoursData (Date_new 60)
        [\<lparr> st_id = ''7'', st_name = ''Ada'', st_matricule = ''M7'', st_field = ''Computer Science'',
           st_level = ''Level 100'' \<rparr>,
         \<lparr> st_id = ''9'', st_name = ''Bea'', st_matricule = ''M9'', st_field = ''Data Science'',
           st_level = ''Level 200'' \<rparr>]
        [\<lparr> row_studentId = JStr ''7'', row_matricule = JStr ''M7'', row_date = JStr ''2000-01-02'',
           row_courseTitle = JStr ''Algebra'', row_courseCode = JStr ''MA1'',
           row_timeSlot = JNull \<rparr>] ! 1) = []"
  using hoursData_one_entry_per_student [of "Date_new 60"
      "[\<lparr> st_id = ''7'', st_name = ''Ada'', st_matricule = ''M7'', st_field = ''Computer Science'',
           st_level = ''Level 100'' \<rparr>,
         \<lparr> st_id = ''9'', st_name = ''Bea'', st_matricule = ''M9'', st_field = ''Data Science'',
           st_level = ''Level 200'' \<rparr>]"
      "[\<lparr> row_studentId = JStr ''7'', row_matricule = JStr ''M7'', row_date = JStr ''2000-01-02'',
           row_courseTitle = JStr ''Algebra'', row_courseCode = JStr ''MA1'',
           row_timeSlot = JNull \<rparr>]"]
  by simp

section \<open>Properties of the risk level\<close>

text \<open>
  Claim C4 as stated: for every aggregated value \<open>h\<close> the label is Low iff \<open>h < 5\<close>. An
  aggregated value can be NaN (one absent session with the time slot \<^verbatim>\<open>"abc"\<close>); every
  comparison with NaN is false, so the label is Low although \<open>h < 5\<close> does not hold.
\<close>

theorem riskLevel_NaN_counterexample:
  "sah_totalAbsentHours
     (hoursData (Date_new 0)
        [\<lparr> st_id = ''7'', st_name = ''Ada'', st_matricule = ''M7'', st_field = ''Computer Science'',
           st_level = ''Level 100'' \<rparr>]
        [\<lparr> row_studentId = JStr ''7'', row_matricule = JStr ''M7'', row_date = JStr ''2000-01-02'',
           row_courseTitle = JStr ''Algebra'', row_courseCode = JStr ''MA1'',
           row_timeSlot = JStr ''abc'' \<rparr>] ! 0) = NaN
   \<and> riskLevel NaN = ''Low'' \<and> \<not> jslt NaN (Num 5)"
  by (simp add: hoursData_def studentHours_def studentAbsences_def absentSession_def Let_def
      riskLevel_def calculateSessionDuration_abc)

text \<open>
  Claim C4, amended. For every aggregated value that is a number \<open>h\<close> (not NaN), the label
  is Critical iff \<open>h \<ge> 15\<close>, High iff \<open>10 \<le> h < 15\<close>, Medium iff \<open>5 \<le> h < 10\<close> and Low iff
  \<open>h < 5\<close>; the lower boundaries are inclusive.
\<close>

theorem riskLevel_bands:
  "(riskLevel (Num h) = ''Critical'' \<longleftrightarrow> 15 \<le> h) \<and>
   (riskLevel (Num h) = ''High'' \<longleftrightarrow> 10 \<le> h \<and> h < 15) \<and>
   (riskLevel (Num h) = ''Medium'' \<longleftrightarrow> 5 \<le> h \<and> h < 10) \<and>
   (riskLevel (Num h) = ''Low'' \<longleftrightarrow> h < 5)"
  by (auto simp: riskLevel_def)

theorem riskLevel_bands_witness:
  "riskLevel (Num 15) = ''Critical'' \<and> riskLevel (Num 10) = ''High'' \<and>
   riskLevel (Num (29 / 2)) = ''High'' \<and> riskLevel (Num 5) = ''Medium'' \<and>
   riskLevel (Num (9 / 2)) = ''Low''"
  using riskLevel_bands [of 15] riskLevel_bands [of 10] riskLevel_bands [of "29 / 2"]
    riskLevel_bands [of 5] riskLevel_bands [of "9 / 2"]
  by simp

section \<open>Properties of the endpoint\<close>

text \<open>
  Claim C5. The endpoint answers 405 to every request whose method is not GET (and runs no
  query); on GET, when the query throws, it answers 500 with the body
  \<^verbatim>\<open>{error: ...message}\<close>; otherwise it answers with the JSON array of all rows. There
  is no other outcome: the status is one of the three, exactly one JSON value is written,
  and the query runs at most once.
\<close>

theorem endpoint_responses:
  "(method \<noteq> ''GET'' \<longrightarrow>
      get_student_absentee_hours method db =
        \<lparr> resp_status = 405, resp_body = [JsonError ''Method not allowed''], resp_queries = 0 \<rparr>) \<and>
   (method = ''GET'' \<longrightarrow> (\<forall>message. db = Throws message \<longrightarrow>
      get_student_absentee_hours method db =
        \<lparr> resp_status = 500,
          resp_body = [JsonError (''Failed to fetch student absentee hours: '' @ message)],
          resp_queries = 1 \<rparr>)) \<and>
   (method = ''GET'' \<longrightarrow> (\<forall>rows. db = Fetched rows \<longrightarrow>
      get_student_absentee_hours method db =
        \<lparr> resp_status = 200, resp_body = [JsonRows rows], resp_queries = 1 \<rparr>)) \<and>
   resp_status (get_student_absentee_hours method db) \<in> {200, 405, 500} \<and>
   length (resp_body (get_student_absentee_hours method db)) = 1 \<and>
   resp_queries (get_student_absentee_hours method db) \<le> 1"
  by (cases db) (simp_all add: get_student_absentee_hours_def sendResponse_def Let_def)

theorem endpoint_responses_witness:
  "get_student_absentee_hours ''POST'' (Fetched [1::nat, 2]) =
     \<lparr> resp_status = 405, resp_body = [JsonError ''Method not allowed''], resp_queries = 0 \<rparr> \<and>
   get_student_absentee_hours ''GET'' (Throws ''gone'' :: nat query_result) =
     \<lparr> resp_status = 500,
       resp_body = [JsonError ''Failed to fetch student absentee hours: gone''],
       resp_queries = 1 \<rparr> \<and>
   get_student_absentee_hours ''GET'' (Fetched [1::nat, 2]) =
     \<lparr> resp_status = 200, resp_body = [JsonRows [1, 2]], resp_queries = 1 \<rparr>"
  using endpoint_responses [of "''POST''" "Fetched [1::nat, 2]"]
    endpoint_responses [of "''GET''" "Throws ''gone'' :: nat query_result"]
    endpoint_responses [of "''GET''" "Fetched [1::nat, 2]"]
  by simp

section \<open>Properties of the loads\<close>

text \<open>
  Claim C7. On an API failure the front end should show the cached data when there is a
  cache entry, and the error banner with its retry button only when there is none. In
  the hours component it does not: with any cache entry \<open>cached\<close> and a rejected call,
  the cached data is put into the state but what is rendered is the error box with
  \<^verbatim>\<open>Try Again\<close>. On the reports page a rejected call with an empty cache sets no error
  at all: the page shows its empty state.
\<close>

theorem load_failure_shows_error_despite_cache:
  "hs_absenteeHours
     (loadAbsenteeHours parse students Rejected
        (st\<lparr> hs_localdb := cacheData ''rollcall_cached_absentee_hours'' cached (hs_localdb st) \<rparr>))
     = cached \<and>
   render_hours
     (loadAbsenteeHours parse students Rejected
        (st\<lparr> hs_localdb := cacheData ''rollcall_cached_absentee_hours'' cached (hs_localdb st) \<rparr>))
     = ErrorBoxWithTryAgain ''Failed to load absentee hours data. Please try again.'' \<and>
   rv_errorMessage
     (render_reports (loadAbsenteeReport parseDate tz Rejected (rst\<lparr> rs_localdb := Map.empty \<rparr>)))
     = None \<and>
   rv_emptyState
     (render_reports (loadAbsenteeReport parseDate tz Rejected (rst\<lparr> rs_localdb := Map.empty \<rparr>)))"
  by (simp add: loadAbsenteeHours_def cacheData_def getCachedData_def render_hours_def Let_def
      loadAbsenteeReport_def render_reports_def applyFilters_def dateFilter_def)

text \<open>
  Claim C9. The date filter should keep every record of the \<^verbatim>\<open>dateFrom\<close> day and of the
  \<^verbatim>\<open>dateTo\<close> day. Five hours behind UTC, with \<^verbatim>\<open>dateFrom = dateTo = "2000-01-02"\<close>, a
  record of noon local time on 2000-01-02 (day 10958 since the epoch, locally and in UTC)
  is dropped: \<^verbatim>\<open>new Date(dateTo)\<close> is midnight UTC, which is 19:00 of the day before
  locally, and \<^verbatim>\<open>setHours\<close> moves it to the end of that earlier local day, 04:59:59.999
  UTC on 2000-01-02. One hour ahead of UTC a record of 00:30 local time on 2000-01-02 is
  dropped as well: it lies before \<^verbatim>\<open>new Date(dateFrom)\<close>, midnight UTC, which is 01:00
  local time.
\<close>

theorem dateFilter_drops_noon_of_end_date:
  "dateFilter parseDate_UTC_minus_5 (- 300)
     \<lparr> flt_dateFrom = ''2000-01-02'', flt_dateTo = ''2000-01-02'', flt_fieldName = [],
       flt_level = [], flt_reportType = ''daily'' \<rparr>
     [\<lparr> ar_studentName = ''Ada'', ar_matricule = ''M7'', ar_fieldName = ''Computer Science'',
        ar_level = ''Level 100'', ar_courseTitle = ''Algebra'', ar_courseCode = ''MA1'',
        ar_parentName = ''Eve'', ar_parentPhone = ''600'', ar_date = ''2000-01-02 12:00:00'' \<rparr>] = []
   \<and> parseDate_UTC_minus_5 ''2000-01-02 12:00:00'' = Some 946832400000
   \<and> calendarDay (- 300) 946832400000 = 10958
   \<and> calendarDay 0 946832400000 = 10958
   \<and> parseDate_UTC_minus_5 ''2000-01-02'' = Some (10958 * 86400000)
   \<and> setHours (- 300) (parseDate_UTC_minus_5 ''2000-01-02'') 23 59 59 999 = Some 946789199999
   \<and> dateFilter parseDate_UTC_plus_1 60
     \<lparr> flt_dateFrom = ''2000-01-02'', flt_dateTo = ''2000-01-02'', flt_fieldName = [],
       flt_level = [], flt_reportType = ''daily'' \<rparr>
     [\<lparr> ar_studentName = ''Ada'', ar_matricule = ''M7'', ar_fieldName = ''Computer Science'',
        ar_level = ''Level 100'', ar_courseTitle = ''Algebra'', ar_courseCode = ''MA1'',
        ar_parentName = ''Eve'', ar_parentPhone = ''600'', ar_date = ''2000-01-02 00:30:00'' \<rparr>] = []
   \<and> calendarDay 60 946769400000 = 10958"
  by (simp add: dateFilter_def parseDate_UTC_minus_5_def parseDate_UTC_plus_1_def setHours_def
      calendarDay_def Let_def)

section \<open>Properties of the grouping\<close>

lemma map_fst_push_to: "map fst (push_to key r acc) = map fst acc"
  by (induction acc) (auto simp: push_to_def)

lemma push_to_alt:
  "push_to key r acc = map (\<lambda>(k, v). (k, if k = key then v @ [r] else v)) acc"
  unfolding push_to_def by (rule map_cong) auto

lemma set_push_to:
  "set (push_to key r acc) = (\<lambda>(k, v). (k, if k = key then v @ [r] else v)) ` set acc"
  by (simp add: push_to_alt)

lemma group_step_groups_of:
  assumes inv: "groups_of rs acc" and ok: "ar_fieldName r \<notin> set Object_prototype_keys"
  shows "\<exists>acc'. group_step acc r = Inr acc' \<and> groups_of (rs @ [r]) acc'"
proof (cases "map_of acc (ar_fieldName r)")
  case None
  then have new: "ar_fieldName r \<notin> set (map fst acc)"
    by (simp add: map_of_eq_None_iff)
  then have "ar_fieldName r \<notin> ar_fieldName ` set rs"
    using inv by (simp add: groups_of_def)
  then have "\<forall>x\<in>set rs. ar_fieldName x \<noteq> ar_fieldName r"
    by (metis imageI)
  then have none: "filter (\<lambda>x. ar_fieldName x = ar_fieldName r) rs = []"
    by (simp add: filter_empty_conv)
  have step: "group_step acc r = Inr (push_to (ar_fieldName r) r (acc @ [(ar_fieldName r, [])]))"
    using None ok by (simp add: group_step_def Let_def)
  have "groups_of (rs @ [r]) (push_to (ar_fieldName r) r (acc @ [(ar_fieldName r, [])]))"
    using inv new none
    by (auto simp: groups_of_def map_fst_push_to set_push_to list_all_iff)
  with step show ?thesis by blast
next
  case (Some v)
  then have old: "ar_fieldName r \<in> set (map fst acc)"
    by (metis map_of_eq_None_iff option.distinct(1) set_map)
  have step: "group_step acc r = Inr (push_to (ar_fieldName r) r acc)"
    using Some by (simp add: group_step_def Let_def)
  have "groups_of (rs @ [r]) (push_to (ar_fieldName r) r acc)"
    using inv old
    by (auto simp: groups_of_def map_fst_push_to set_push_to list_all_iff)
  with step show ?thesis by blast
qed

lemma group_reduce_groups_of:
  assumes "groups_of rs acc"
    and "list_all (\<lambda>r. ar_fieldName r \<notin> set Object_prototype_keys) rest"
  shows "\<exists>acc'. group_reduce acc rest = Inr acc' \<and> groups_of (rs @ rest) acc'"
  using assms
proof (induction rest arbitrary: acc rs)
  case Nil
  then show ?case by simp
next
  case (Cons r rest)
  from Cons.prems obtain acc1 where
    s: "group_step acc r = Inr acc1" and i: "groups_of (rs @ [r]) acc1"
    using group_step_groups_of [of rs acc r] by auto
  from Cons.IH [OF i] Cons.prems(2) obtain acc' where
    "group_reduce acc1 rest = Inr acc'" "groups_of ((rs @ [r]) @ rest) acc'"
    by auto
  with s show ?case by simp
qed

lemma mset_Object_entries: "mset (Object_entries obj) = mset obj"
  by (simp add: Object_entries_def)

lemma count_key_in_distinct:
  "distinct ks \<Longrightarrow>
   sum_list (map (\<lambda>k. if a = k then 1 else 0) ks) = (if a \<in> set ks then 1 else (0::nat))"
  by (induction ks) auto

lemma sum_group_lengths:
  "distinct ks \<Longrightarrow> f ` set rs \<subseteq> set ks \<Longrightarrow>
   sum_list (map (\<lambda>k. length (filter (\<lambda>r. f r = k) rs)) ks) = length rs"
proof (induction rs)
  case Nil
  then show ?case by simp
next
  case (Cons r rs)
  have "sum_list (map (\<lambda>k. length (filter (\<lambda>x. f x = k) (r # rs))) ks) =
        sum_list (map (\<lambda>k. (if f r = k then 1 else 0) + length (filter (\<lambda>x. f x = k) rs)) ks)"
    by (rule arg_cong [where f = sum_list]) (rule map_cong, simp_all)
  also have "\<dots> = sum_list (map (\<lambda>k. if f r = k then 1 else 0) ks)
                  + sum_list (map (\<lambda>k. length (filter (\<lambda>x. f x = k) rs)) ks)"
    by (simp add: sum_list_addf)
  also have "\<dots> = 1 + length rs"
    using Cons by (simp add: count_key_in_distinct)
  finally show ?case by simp
qed

lemma groups_of_total:
  assumes "groups_of rs acc"
  shows "sum_list (map (\<lambda>e. length (snd e)) acc) = length rs"
proof -
  have eq: "map (\<lambda>e. length (snd e)) acc =
        map (\<lambda>k. length (filter (\<lambda>r. ar_fieldName r = k) rs)) (map fst acc)"
    using assms by (auto simp: groups_of_def list_all_iff)
  have "sum_list (map (\<lambda>k. length (filter (\<lambda>r. ar_fieldName r = k) rs)) (map fst acc))
        = length rs"
    by (rule sum_group_lengths) (use assms in \<open>simp_all add: groups_of_def\<close>)
  then show ?thesis by (simp only: eq)
qed

text \<open>
  Claim C10 as stated, for every list. A record whose \<^verbatim>\<open>fieldName\<close> is
  \<^verbatim>\<open>"constructor"\<close> appears in no group: \<^verbatim>\<open>acc["constructor"]\<close> is the inherited
  function, no array is created, and the \<^verbatim>\<open>push\<close> throws a TypeError.
\<close>

theorem getGroupedAbsentees_inherited_key_throws:
  "getGroupedAbsentees
     [\<lparr> ar_studentName = ''Ada'', ar_matricule = ''M7'', ar_fieldName = ''constructor'',
        ar_level = ''Level 100'', ar_courseTitle = ''Algebra'', ar_courseCode = ''MA1'',
        ar_parentName = ''Eve'', ar_parentPhone = ''600'', ar_date = ''2000-01-02'' \<rparr>]
   = Inl TypeError"
  by (simp add: getGroupedAbsentees_def group_step_def Object_prototype_keys_def)

text \<open>
  Claim C10, amended. For every list of records none of whose \<^verbatim>\<open>fieldName\<close> is a name
  inherited from \<^verbatim>\<open>Object.prototype\<close>, \<^verbatim>\<open>getGroupedAbsentees\<close> returns groups that
  partition the list by \<^verbatim>\<open>fieldName\<close>: the group names are distinct and are exactly the
  field names that occur, so every record is in exactly one group; the records of a group
  are the records of that name in their order of the input; each count is the length of
  its group's records; and the counts add up to the number of records.
\<close>

theorem getGroupedAbsentees_partition:
  assumes ok: "\<forall>r\<in>set absentees. ar_fieldName r \<notin> set Object_prototype_keys"
  shows "\<exists>groups. getGroupedAbsentees absentees = Inr groups \<and>
           distinct (map grp_fieldName groups) \<and>
           set (map grp_fieldName groups) = ar_fieldName ` set absentees \<and>
           (\<forall>g\<in>set groups.
              grp_records g = filter (\<lambda>r. ar_fieldName r = grp_fieldName g) absentees \<and>
              grp_count g = length (grp_records g)) \<and>
           sum_list (map grp_count groups) = length absentees"
proof -
  have "groups_of [] []" by (simp add: groups_of_def)
  moreover have "list_all (\<lambda>r. ar_fieldName r \<notin> set Object_prototype_keys) absentees"
    using ok by (simp add: list_all_iff)
  ultimately obtain acc where
    red: "group_reduce [] absentees = Inr acc" and inv: "groups_of absentees acc"
    using group_reduce_groups_of [of "[]" "[]" absentees] by auto
  define groups where
    "groups = map (\<lambda>(fieldName, records).
                \<lparr> grp_fieldName = fieldName, grp_records = records, grp_count = length records \<rparr>)
              (Object_entries acc)"
  have res: "getGroupedAbsentees absentees = Inr groups"
    by (simp add: getGroupedAbsentees_def red groups_def)
  have names: "map grp_fieldName groups = map fst (Object_entries acc)"
    by (simp add: groups_def case_prod_beta comp_def)
  have counts: "map grp_count groups = map (\<lambda>e. length (snd e)) (Object_entries acc)"
    by (simp add: groups_def case_prod_beta comp_def)
  have m: "mset (map fst (Object_entries acc)) = mset (map fst acc)"
    by (simp add: mset_Object_entries)
  have d: "distinct (map grp_fieldName groups)"
    using inv mset_eq_imp_distinct_iff [OF m] by (simp add: names groups_of_def)
  have s: "set (map grp_fieldName groups) = ar_fieldName ` set absentees"
    using inv mset_eq_setD [OF m] by (simp add: names groups_of_def)
  have se: "set (Object_entries acc) = set acc"
    using mset_eq_setD [OF mset_Object_entries] .
  have l: "\<forall>g\<in>set groups.
              grp_records g = filter (\<lambda>r. ar_fieldName r = grp_fieldName g) absentees \<and>
              grp_count g = length (grp_records g)"
    using inv by (auto simp: groups_def list_all_iff groups_of_def se)
  have "sum_list (map (\<lambda>e. length (snd e)) (Object_entries acc)) =
        sum_list (map (\<lambda>e. length (snd e)) acc)"
    using arg_cong [OF mset_Object_entries, of "\<lambda>M. sum_mset (image_mset (\<lambda>e. length (snd e)) M)"]
    by (simp add: sum_mset_sum_list [symmetric] del: sum_mset_sum_list)
  then have t: "sum_list (map grp_count groups) = length absentees"
    using groups_of_total [OF inv] by (simp add: counts)
  from res d s l t show ?thesis by blast
qed

theorem getGroupedAbsentees_partition_witness:
  "list_all (\<lambda>r. ar_fieldName r \<notin> set Object_prototype_keys)
     [\<lparr> ar_studentName = ''Ada'', ar_matricule = ''M7'', ar_fieldName = ''CS'',
        ar_level = ''Level 100'', ar_courseTitle = ''Algebra'', ar_courseCode = ''MA1'',
        ar_parentName = ''Eve'', ar_parentPhone = ''600'', ar_date = ''2000-01-02'' \<rparr>,
      \<lparr> ar_studentName = ''Bob'', ar_matricule = ''M8'', ar_fieldName = ''2'',
        ar_level = ''Level 100'', ar_courseTitle = ''Algebra'', ar_courseCode = ''MA1'',
        ar_parentName = ''Eve'', ar_parentPhone = ''600'', ar_date = ''2000-01-02'' \<rparr>,
      \<lparr> ar_studentName = ''Cy'', ar_matricule = ''M9'', ar_fieldName = ''CS'',
        ar_level = ''Level 100'', ar_courseTitle = ''Algebra'', ar_courseCode = ''MA1'',
        ar_parentName = ''Eve'', ar_parentPhone = ''600'', ar_date = ''2000-01-02'' \<rparr>] \<and>
   (\<exists>groups.
      getGroupedAbsentees
        [\<lparr> ar_studentName = ''Ada'', ar_matricule = ''M7'', ar_fieldName = ''CS'',
           ar_level = ''Level 100'', ar_courseTitle = ''Algebra'', ar_courseCode = ''MA1'',
           ar_parentName = ''Eve'', ar_parentPhone = ''600'', ar_date = ''2000-01-02'' \<rparr>,
         \<lparr> ar_studentName = ''Bob'', ar_matricule = ''M8'', ar_fieldName = ''2'',
           ar_level = ''Level 100'', ar_courseTitle = ''Algebra'', ar_courseCode = ''MA1'',
           ar_parentName = ''Eve'', ar_parentPhone = ''600'', ar_date = ''2000-01-02'' \<rparr>,
         \<lparr> ar_studentName = ''Cy'', ar_matricule = ''M9'', ar_fieldName = ''CS'',
           ar_level = ''Level 100'', ar_courseTitle = ''Algebra'', ar_courseCode = ''MA1'',
           ar_parentName = ''Eve'', ar_parentPhone = ''600'', ar_date = ''2000-01-02'' \<rparr>]
        = Inr groups \<and>
      distinct (map grp_fieldName groups) \<and>
      set (map grp_fieldName groups) = {''CS'', ''2''} \<and>
      sum_list (map grp_count groups) = 3)"
proof -
  let ?l = "[\<lparr> ar_studentName = ''Ada'', ar_matricule = ''M7'', ar_fieldName = ''CS'',
        ar_level = ''Level 100'', ar_courseTitle = ''Algebra'', ar_courseCode = ''MA1'',
        ar_parentName = ''Eve'', ar_parentPhone = ''600'', ar_date = ''2000-01-02'' \<rparr>,
      \<lparr> ar_studentName = ''Bob'', ar_matricule = ''M8'', ar_fieldName = ''2'',
        ar_level = ''Level 100'', ar_courseTitle = ''Algebra'', ar_courseCode = ''MA1'',
        ar_parentName = ''Eve'', ar_parentPhone = ''600'', ar_date = ''2000-01-02'' \<rparr>,
      \<lparr> ar_studentName = ''Cy'', ar_matricule = ''M9'', ar_fieldName = ''CS'',
        ar_level = ''Level 100'', ar_courseTitle = ''Algebra'', ar_courseCode = ''MA1'',
        ar_parentName = ''Eve'', ar_parentPhone = ''600'', ar_date = ''2000-01-02'' \<rparr>]"
  have ok: "\<forall>r\<in>set ?l. ar_fieldName r \<notin> set Object_prototype_keys"
    by (simp add: Object_prototype_keys_def)
  then have "list_all (\<lambda>r. ar_fieldName r \<notin> set Object_prototype_keys) ?l"
    by (simp add: list_all_iff)
  moreover from getGroupedAbsentees_partition [OF ok] obtain groups where
    "getGroupedAbsentees ?l = Inr groups" "distinct (map grp_fieldName groups)"
    "set (map grp_fieldName groups) = ar_fieldName ` set ?l"
    "sum_list (map grp_count groups) = length ?l"
    by blast
  ultimately show ?thesis by auto
qed

section \<open>Properties of the CSV export\<close>

lemma set_Array_join: "set (Array_join sep xs) \<subseteq> set sep \<union> (\<Union>x\<in>set xs. set x)"
  by (induction sep xs rule: Array_join.induct) auto

lemma split_go_Array_join:
  "xs \<noteq> [] \<Longrightarrow> (\<And>x. x \<in> set xs \<Longrightarrow> c \<notin> set x) \<Longrightarrow> split_go [c] (Array_join [c] xs) = xs"
proof (induction xs)
  case Nil
  then show ?case by simp
next
  case (Cons x xs)
  have cx: "c \<notin> set x" using Cons.prems(2) by simp
  show ?case
  proof (cases xs)
    case Nil
    then show ?thesis using cx by (simp add: split_go_no_sep)
  next
    case (Cons y ys)
    have ih: "split_go [c] (Array_join [c] xs) = xs"
      using Cons.IH Cons.prems(2) Cons by simp
    have "split_go [c] (x @ [c] @ Array_join [c] xs) = x # split_go [c] (Array_join [c] xs)"
      using cx by (rule split_go_first)
    then show ?thesis using ih Cons by simp
  qed
qed

lemma csv_columns_join:
  assumes "cells \<noteq> []" and "\<And>cell. cell \<in> set cells \<Longrightarrow> CHR '','' \<notin> set cell"
  shows "csv_columns (Array_join '','' cells) = cells"
  using split_go_Array_join [of cells "CHR '',''"] assms
  by (simp add: csv_columns_def String_split_def)

lemma csv_rows_join:
  assumes "rows \<noteq> []" and "\<And>row. row \<in> set rows \<Longrightarrow> newline \<notin> set row"
  shows "csv_rows (Array_join [newline] rows) = rows"
  using split_go_Array_join [of rows newline] assms
  by (simp add: csv_rows_def String_split_def)

lemma newline_notin_join:
  assumes "\<And>cell. cell \<in> set cells \<Longrightarrow> newline \<notin> set cell"
  shows "newline \<notin> set (Array_join '','' cells)"
proof
  assume "newline \<in> set (Array_join '','' cells)"
  then have "newline \<in> set '','' \<union> (\<Union>x\<in>set cells. set x)"
    using set_Array_join [of "'',''" cells] by blast
  then show False using assms by (auto simp: newline_def)
qed

lemma csvHeader_clean:
  "cell \<in> set csvHeader \<Longrightarrow> CHR '','' \<notin> set cell \<and> newline \<notin> set cell"
  by (auto simp: csvHeader_def newline_def)

text \<open>
  Claim C6, amended. For every list of records none of whose eight cells (the course cell
  \<^verbatim>\<open>title (code)\<close> and the formatted date included) contains a comma or a line break,
  the exported text has one header row and exactly one data row per record, and the
  columns of every data row are, in this order: student name, matricule, field, level,
  course, parent name, parent phone, date.
\<close>

theorem exportReport_rows_and_columns:
  assumes clean: "\<forall>record\<in>set absentees. \<forall>cell\<in>set (csvCells toLocaleDateString record).
                    CHR '','' \<notin> set cell \<and> newline \<notin> set cell"
  shows "length (csv_rows (exportReport toLocaleDateString absentees)) = length absentees + 1 \<and>
         csv_columns (csv_rows (exportReport toLocaleDateString absentees) ! 0) =
           [''Student Name'', ''Matricule'', ''Field'', ''Level'', ''Course'',
            ''Parent Name'', ''Parent Phone'', ''Date''] \<and>
         (\<forall>i<length absentees.
            csv_columns (csv_rows (exportReport toLocaleDateString absentees) ! Suc i) =
              [ ar_studentName (absentees ! i),
                ar_matricule (absentees ! i),
                ar_fieldName (absentees ! i),
                ar_level (absentees ! i),
                ar_courseTitle (absentees ! i) @ '' ('' @ ar_courseCode (absentees ! i) @ '')'',
                ar_parentName (absentees ! i),
                ar_parentPhone (absentees ! i),
                toLocaleDateString (ar_date (absentees ! i)) ])"
proof -
  define rows where
    "rows = Array_join '','' csvHeader
            # map (\<lambda>record. Array_join '','' (csvCells toLocaleDateString record)) absentees"
  have no_nl: "newline \<notin> set row" if "row \<in> set rows" for row
  proof -
    from that consider "row = Array_join '','' csvHeader"
      | r where "r \<in> set absentees"
          "row = Array_join '','' (csvCells toLocaleDateString r)"
      by (auto simp: rows_def)
    then show ?thesis
    proof cases
      case 1
      then show ?thesis using newline_notin_join [of csvHeader] csvHeader_clean by blast
    next
      case 2
      then show ?thesis
        using newline_notin_join [of "csvCells toLocaleDateString r"] clean by blast
    qed
  qed
  have rows: "csv_rows (exportReport toLocaleDateString absentees) = rows"
    unfolding exportReport_def rows_def [symmetric]
    by (rule csv_rows_join) (simp_all add: rows_def no_nl)
  have header: "csv_columns (Array_join '','' csvHeader) = csvHeader"
    by (rule csv_columns_join) (use csvHeader_clean in \<open>auto simp: csvHeader_def\<close>)
  have cells: "csv_columns (Array_join '','' (csvCells toLocaleDateString (absentees ! i)))
               = csvCells toLocaleDateString (absentees ! i)" if "i < length absentees" for i
  proof (rule csv_columns_join)
    show "csvCells toLocaleDateString (absentees ! i) \<noteq> []"
      by (simp add: csvCells_def)
  next
    fix cell assume "cell \<in> set (csvCells toLocaleDateString (absentees ! i))"
    then show "CHR '','' \<notin> set cell"
      using clean that nth_mem [of i absentees] by blast
  qed
  have "length rows = length absentees + 1"
    by (simp add: rows_def)
  moreover have "csv_columns (rows ! 0) = csvHeader"
    by (simp add: rows_def header)
  moreover have "\<forall>i<length absentees.
      csv_columns (rows ! Suc i) = csvCells toLocaleDateString (absentees ! i)"
    by (simp add: rows_def cells)
  ultimately show ?thesis
    unfolding rows by (simp add: csvHeader_def csvCells_def)
qed

theorem exportReport_rows_and_columns_witness:
  "csv_rows (exportReport toLocaleDateString_en_US
     [\<lparr> ar_studentName = ''Ada'', ar_matricule = ''M7'', ar_fieldName = ''Computer Science'',
        ar_level = ''Level 100'', ar_courseTitle = ''Algebra'', ar_courseCode = ''MA1'',
        ar_parentName = ''Eve'', ar_parentPhone = ''600'', ar_date = ''2000-01-02'' \<rparr>])
   = [''Student Name,Matricule,Field,Level,Course,Parent Name,Parent Phone,Date'',
      ''Ada,M7,Computer Science,Level 100,Algebra (MA1),Eve,600,1/2/2000''] \<and>
   csv_columns (csv_rows (exportReport toLocaleDateString_en_US
     [\<lparr> ar_studentName = ''Ada'', ar_matricule = ''M7'', ar_fieldName = ''Computer Science'',
        ar_level = ''Level 100'', ar_courseTitle = ''Algebra'', ar_courseCode = ''MA1'',
        ar_parentName = ''Eve'', ar_parentPhone = ''600'', ar_date = ''2000-01-02'' \<rparr>]) ! Suc 0)
   = [''Ada'', ''M7'', ''Computer Science'', ''Level 100'', ''Algebra (MA1)'', ''Eve'', ''600'',
      ''1/2/2000'']"
proof -
  let ?r = "\<lparr> ar_studentName = ''Ada'', ar_matricule = ''M7'', ar_fieldName = ''Computer Science'',
        ar_level = ''Level 100'', ar_courseTitle = ''Algebra'', ar_courseCode = ''MA1'',
        ar_parentName = ''Eve'', ar_parentPhone = ''600'', ar_date = ''2000-01-02'' \<rparr>"
  have clean: "\<forall>record\<in>set [?r]. \<forall>cell\<in>set (csvCells toLocaleDateString_en_US record).
                    CHR '','' \<notin> set cell \<and> newline \<notin> set cell"
    by (simp add: csvCells_def toLocaleDateString_en_US_def newline_def)
  have rows: "csv_rows (exportReport toLocaleDateString_en_US [?r])
   = [''Student Name,Matricule,Field,Level,Course,Parent Name,Parent Phone,Date'',
      ''Ada,M7,Computer Science,Level 100,Algebra (MA1),Eve,600,1/2/2000'']"
    by (simp add: csv_rows_def exportReport_def csvHeader_def csvCells_def String_split_def
        toLocaleDateString_en_US_def newline_def)
  from exportReport_rows_and_columns [OF clean] rows show ?thesis
    by (simp add: toLocaleDateString_en_US_def)
qed

text \<open>
  Claim C6 as stated, for every list of records. The cells are joined unquoted: a student
  name \<^verbatim>\<open>Doe, John\<close> gives a data row of nine columns whose second column is
  \<^verbatim>\<open> John\<close>, not the matricule; a parent name with a line break gives a file of three
  rows for one record.
\<close>

theorem exportReport_comma_counterexample:
  "csv_columns (csv_rows (exportReport toLocaleDateString_en_US
     [\<lparr> ar_studentName = ''Doe, John'', ar_matricule = ''M7'', ar_fieldName = ''Computer Science'',
        ar_level = ''Level 100'', ar_courseTitle = ''Algebra'', ar_courseCode = ''MA1'',
        ar_parentName = ''Eve'', ar_parentPhone = ''600'', ar_date = ''2000-01-02'' \<rparr>]) ! Suc 0)
   = [''Doe'', '' John'', ''M7'', ''Computer Science'', ''Level 100'', ''Algebra (MA1)'', ''Eve'',
      ''600'', ''1/2/2000''] \<and>
   length (csv_rows (exportReport toLocaleDateString_en_US
     [\<lparr> ar_studentName = ''Ada'', ar_matricule = ''M7'', ar_fieldName = ''Computer Science'',
        ar_level = ''Level 100'', ar_courseTitle = ''Algebra'', ar_courseCode = ''MA1'',
        ar_parentName = [CHR ''E'', newline, CHR ''v''], ar_parentPhone = ''600'',
        ar_date = ''2000-01-02'' \<rparr>])) = 3"
  by (simp add: csv_rows_def csv_columns_def exportReport_def csvHeader_def csvCells_def
      String_split_def toLocaleDateString_en_US_def newline_def)

end
